theory Spec2Isabelle
  imports Complex_Main "HOL-Library.Char_ord" "HOL-Library.List_Lexorder"
    "HOL-Library.Product_Lexorder"
begin

section \<open>The e-commerce assistant of Class 3 (Ecommerce/agent.py)\<close>

text \<open>
  The module keeps three pieces of global state: the catalog \<open>PRODUCTS_DB\<close>, the
  shopping cart \<open>cart\<close> and the list \<open>search_history\<close>. Each tool is embedded as a
  function from the state before the call to the returned dictionary and the state
  after it.

  Conventions of the embedding.
  \<^item> Python's \<open>float\<close> is the type \<open>rat\<close>: the literals \<open>0.08\<close>, \<open>0.10\<close>, ... stand for
    the decimal fractions they spell, and arithmetic is exact.
  \<^item> Python's \<open>str\<close> is \<open>string\<close>, restricted to ASCII text; \<open>lower\<close>, \<open>upper\<close> and
    \<open>strip\<close> are given for ASCII.
  \<^item> A dictionary is an association list in insertion order.
  \<^item> An operation of the language that can raise (a subscript on a dictionary, a
    \<open>list.remove\<close>) returns a sum, \<open>Inl\<close> carrying the exception.
  \<^item> The calls of \<open>logger.info\<close> are left out.
\<close>

subsection \<open>Strings\<close>

definition lower_char :: "char \<Rightarrow> char" where
  "lower_char c =
     (case map_of (zip ''ABCDEFGHIJKLMNOPQRSTUVWXYZ'' ''abcdefghijklmnopqrstuvwxyz'') c of
        Some d \<Rightarrow> d | None \<Rightarrow> c)"

definition upper_char :: "char \<Rightarrow> char" where
  "upper_char c =
     (case map_of (zip ''abcdefghijklmnopqrstuvwxyz'' ''ABCDEFGHIJKLMNOPQRSTUVWXYZ'') c of
        Some d \<Rightarrow> d | None \<Rightarrow> c)"

definition lower :: "string \<Rightarrow> string" where
  "lower s = map lower_char s"

definition upper :: "string \<Rightarrow> string" where
  "upper s = map upper_char s"

text \<open>The ASCII characters for which \<open>str.isspace\<close> holds: 9 to 13, 28 to 31 and 32.\<close>

definition isspace :: "char \<Rightarrow> bool" where
  "isspace c =
     (c \<in> set [CHR 0x09, CHR 0x0A, CHR 0x0B, CHR 0x0C, CHR 0x0D,
                CHR 0x1C, CHR 0x1D, CHR 0x1E, CHR 0x1F, CHR 0x20])"

definition strip :: "string \<Rightarrow> string" where
  "strip s = rev (dropWhile isspace (rev (dropWhile isspace s)))"

subsection \<open>Constants\<close>

definition TAX_RATE :: rat where
  "TAX_RATE = 8 / 100"

definition SHIPPING_THRESHOLD :: rat where
  "SHIPPING_THRESHOLD = 100"

definition SHIPPING_COST :: rat where
  "SHIPPING_COST = 10"

definition DISCOUNT_CODES :: "(string \<times> rat) list" where
  "DISCOUNT_CODES = [(''WELCOME10'', 10 / 100), (''SAVE20'', 20 / 100), (''VIP30'', 30 / 100)]"

subsection \<open>Data models\<close>

text \<open>
  The fields \<open>id\<close> and \<open>name\<close> of \<open>Product\<close> are \<open>id_p\<close> and \<open>name_p\<close> here.
\<close>

record Product =
  id_p :: string
  name_p :: string
  price :: rat
  stock :: int
  features :: "string list"
  category :: string
  description :: string
  rating :: rat
  reviews :: int

record CartItem =
  product_id :: string
  name :: string
  unit_price :: rat
  quantity :: int
  subtotal :: rat

text \<open>
  The constructor of the dataclass: \<open>subtotal\<close> is not an argument, \<open>__post_init__\<close>
  computes it.
\<close>

definition CartItem_init :: "string \<Rightarrow> string \<Rightarrow> rat \<Rightarrow> int \<Rightarrow> CartItem" where
  "CartItem_init pid nm up q =
     \<lparr>product_id = pid, name = nm, unit_price = up, quantity = q,
      subtotal = up * of_int q\<rparr>"

record Cart =
  items :: "CartItem list"
  discount_code :: "string option"

definition get_subtotal :: "Cart \<Rightarrow> rat" where
  "get_subtotal c = sum_list (map subtotal (items c))"

definition get_discount_amount :: "Cart \<Rightarrow> rat" where
  "get_discount_amount c =
     (case discount_code c of
        None \<Rightarrow> 0
      | Some d \<Rightarrow>
          (if d \<noteq> [] then
             (case map_of DISCOUNT_CODES d of
                Some r \<Rightarrow> get_subtotal c * r
              | None \<Rightarrow> 0)
           else 0))"

definition get_tax :: "Cart \<Rightarrow> rat" where
  "get_tax c =
     (let subtotal_after_discount = get_subtotal c - get_discount_amount c
      in subtotal_after_discount * TAX_RATE)"

definition get_shipping :: "Cart \<Rightarrow> rat" where
  "get_shipping c = (if get_subtotal c \<ge> SHIPPING_THRESHOLD then 0 else SHIPPING_COST)"

definition get_total :: "Cart \<Rightarrow> rat" where
  "get_total c =
     (let subtotal = get_subtotal c;
          discount = get_discount_amount c;
          tax = get_tax c;
          shipping = get_shipping c
      in subtotal - discount + tax + shipping)"

subsection \<open>The catalog\<close>

definition PRODUCTS_DB :: "(string \<times> Product) list" where
  "PRODUCTS_DB =
    [(''gaming laptop pro'',
      \<lparr>id_p = ''LPG001'', name_p = ''Gaming Laptop Pro'', price = 1500, stock = 10,
       features = [''RTX 4070'', ''32GB RAM'', ''1TB SSD'', ''144Hz Display''],
       category = ''Computers'',
       description = ''High-end gaming laptop for the most demanding games'',
       rating = 48 / 10, reviews = 127\<rparr>),
     (''mechanical rgb keyboard'',
      \<lparr>id_p = ''TEC005'', name_p = ''Mechanical RGB Keyboard'', price = 120, stock = 25,
       features = [''Cherry MX Switches'', ''Customizable RGB'', ''TKL'', ''USB-C''],
       category = ''Peripherals'',
       description = ''Premium mechanical keyboard with full RGB lighting'',
       rating = 46 / 10, reviews = 89\<rparr>),
     (''4k hdr monitor'',
      \<lparr>id_p = ''MON003'', name_p = ''4K HDR Monitor'', price = 400, stock = 5,
       features = [''27 inches'', ''144Hz'', ''HDR10'', ''G-Sync Compatible''],
       category = ''Monitors'',
       description = ''4K gaming monitor with HDR for an immersive visual experience'',
       rating = 49 / 10, reviews = 203\<rparr>),
     (''gaming mouse pro'',
      \<lparr>id_p = ''MOU002'', name_p = ''Gaming Mouse Pro'', price = 80, stock = 15,
       features = [''16000 DPI'', ''RGB'', ''8 programmable buttons'', ''Wireless''],
       category = ''Peripherals'',
       description = ''Professional gaming mouse with high-precision sensor'',
       rating = 47 / 10, reviews = 156\<rparr>),
     (''7.1 headphones'',
      \<lparr>id_p = ''AUR004'', name_p = ''Gaming Headphones 7.1'', price = 150, stock = 8,
       features = [''7.1 Surround Sound'', ''Retractable microphone'', ''RGB'',
                   ''Noise cancellation''],
       category = ''Audio'',
       description = ''Gaming headphones with surround sound for maximum immersion'',
       rating = 45 / 10, reviews = 94\<rparr>)]"

subsection \<open>Exceptions\<close>

datatype exn = KeyError | ValueError

text \<open>\<open>d[k]\<close> on a dictionary and \<open>xs.remove(x)\<close> on a list.\<close>

definition subscript :: "('k \<times> 'v) list \<Rightarrow> 'k \<Rightarrow> exn + 'v" where
  "subscript d k = (case map_of d k of None \<Rightarrow> Inl KeyError | Some v \<Rightarrow> Inr v)"

definition list_remove :: "'a list \<Rightarrow> 'a \<Rightarrow> exn + 'a list" where
  "list_remove xs x = (if x \<in> set xs then Inr (remove1 x xs) else Inl ValueError)"

subsection \<open>difflib.get_close_matches\<close>

text \<open>
  \<open>find_product_fuzzy\<close> calls \<open>get_close_matches\<close> of the standard library module
  \<open>difflib\<close> (CPython 3.11). The function and the part of \<open>SequenceMatcher\<close> it runs
  are transcribed here. \<open>get_close_matches\<close> builds the matcher with no junk
  predicate, so \<open>bjunk\<close> is empty and the two loops of \<open>find_longest_match\<close> that
  extend a match over junk never run; they are left out. The first sequence \<open>a\<close> is
  the candidate, the second sequence \<open>b\<close> is the word looked for.

  \<open>popular\<close> is the automatic junk heuristic of \<open>__chain_b\<close>: in a second sequence of
  200 elements or more, an element that occurs more than \<open>n // 100 + 1\<close> times is
  dropped from \<open>b2j\<close>.
\<close>

definition popular :: "string \<Rightarrow> char \<Rightarrow> bool" where
  "popular b elt = (length b \<ge> 200 \<and> count_list b elt > length b div 100 + 1)"

definition b2j :: "string \<Rightarrow> char \<Rightarrow> nat list" where
  "b2j b elt = (if popular b elt then [] else filter (\<lambda>j. b ! j = elt) [0..<length b])"

definition j2lenget :: "(nat \<times> nat) list \<Rightarrow> nat \<Rightarrow> nat" where
  "j2lenget j2len j =
     (if j = 0 then 0 else (case map_of j2len (j - 1) of Some v \<Rightarrow> v | None \<Rightarrow> 0))"

fun inner_loop ::
  "nat \<Rightarrow> nat \<Rightarrow> nat \<Rightarrow> (nat \<times> nat) list \<Rightarrow> nat list \<Rightarrow>
   (nat \<times> nat) list \<times> nat \<times> nat \<times> nat \<Rightarrow> (nat \<times> nat) list \<times> nat \<times> nat \<times> nat" where
  "inner_loop i blo bhi j2len [] st = st"
| "inner_loop i blo bhi j2len (j # js) (newj2len, besti, bestj, bestsize) =
     (if j < blo then inner_loop i blo bhi j2len js (newj2len, besti, bestj, bestsize)
      else if j \<ge> bhi then (newj2len, besti, bestj, bestsize)
      else
        (let k = j2lenget j2len j + 1 in
         if k > bestsize
         then inner_loop i blo bhi j2len js ((j, k) # newj2len, i + 1 - k, j + 1 - k, k)
         else inner_loop i blo bhi j2len js ((j, k) # newj2len, besti, bestj, bestsize)))"

fun outer_loop ::
  "string \<Rightarrow> string \<Rightarrow> nat \<Rightarrow> nat \<Rightarrow> nat list \<Rightarrow>
   (nat \<times> nat) list \<times> nat \<times> nat \<times> nat \<Rightarrow> nat \<times> nat \<times> nat" where
  "outer_loop a b blo bhi [] (j2len, best) = best"
| "outer_loop a b blo bhi (i # is) (j2len, best) =
     outer_loop a b blo bhi is (inner_loop i blo bhi j2len (b2j b (a ! i)) ([], best))"

fun extend_left :: "string \<Rightarrow> string \<Rightarrow> nat \<Rightarrow> nat \<Rightarrow> nat \<Rightarrow> nat \<Rightarrow> nat \<Rightarrow> nat \<times> nat \<times> nat" where
  "extend_left a b alo blo 0 bestj bestsize = (0, bestj, bestsize)"
| "extend_left a b alo blo (Suc i) bestj bestsize =
     (if Suc i > alo \<and> bestj > blo \<and> a ! i = b ! (bestj - 1)
      then extend_left a b alo blo i (bestj - 1) (bestsize + 1)
      else (Suc i, bestj, bestsize))"

function extend_right :: "string \<Rightarrow> string \<Rightarrow> nat \<Rightarrow> nat \<Rightarrow> nat \<Rightarrow> nat \<Rightarrow> nat \<Rightarrow> nat" where
  "extend_right a b ahi bhi besti bestj bestsize =
     (if besti + bestsize < ahi \<and> bestj + bestsize < bhi \<and>
         a ! (besti + bestsize) = b ! (bestj + bestsize)
      then extend_right a b ahi bhi besti bestj (bestsize + 1)
      else bestsize)"
  by pat_completeness auto
termination
  by (relation "measure (\<lambda>(a, b, ahi, bhi, besti, bestj, bestsize). ahi - (besti + bestsize))") auto

declare extend_right.simps [simp del]

definition find_longest_match :: "string \<Rightarrow> string \<Rightarrow> nat \<Rightarrow> nat \<Rightarrow> nat \<Rightarrow> nat \<Rightarrow> nat \<times> nat \<times> nat" where
  "find_longest_match a b alo ahi blo bhi =
     (case outer_loop a b blo bhi [alo..<ahi] ([], alo, blo, 0) of
        (besti, bestj, bestsize) \<Rightarrow>
          (case extend_left a b alo blo besti bestj bestsize of
             (besti', bestj', bestsize') \<Rightarrow>
               (besti', bestj', extend_right a b ahi bhi besti' bestj' bestsize')))"

lemma j2lenget_le:
  "\<forall>(j, v) \<in> set j2len. v \<le> n \<Longrightarrow> j2lenget j2len j \<le> n"
  by (auto simp: j2lenget_def split: option.splits dest!: map_of_SomeD)

lemma inner_loop_inv:
  assumes "\<forall>(j, v) \<in> set j2len. v \<le> i - alo" and "alo \<le> i" and "i < ahi"
    and "\<forall>(j, v) \<in> set nj. v \<le> Suc i - alo" and "alo \<le> bi" and "bi + bs \<le> ahi"
    and "inner_loop i blo bhi j2len js (nj, bi, bs', bs) = (nj', bi', bj', bs'')"
  shows "(\<forall>(j, v) \<in> set nj'. v \<le> Suc i - alo) \<and> alo \<le> bi' \<and> bi' + bs'' \<le> ahi"
  using assms
proof (induction js arbitrary: nj bi bs' bs)
  case Nil
  then show ?case by simp
next
  case (Cons j js)
  have k: "j2lenget j2len j + 1 \<le> Suc i - alo"
    using j2lenget_le [OF Cons.prems(1), of j] Cons.prems(2) by simp
  show ?case
  proof (cases "j < blo")
    case True
    with Cons show ?thesis by simp
  next
    case False
    show ?thesis
    proof (cases "j \<ge> bhi")
      case True
      with False Cons.prems show ?thesis by simp
    next
      case nb: False
      show ?thesis
      proof (cases "j2lenget j2len j + 1 > bs")
        case True
        have "inner_loop i blo bhi j2len js
            ((j, j2lenget j2len j + 1) # nj, i + 1 - (j2lenget j2len j + 1),
             j + 1 - (j2lenget j2len j + 1), j2lenget j2len j + 1) = (nj', bi', bj', bs'')"
          using Cons.prems(7) False nb True by (simp add: Let_def)
        then show ?thesis
          using k Cons.prems(1-4)
          by (intro Cons.IH) auto
      next
        case nk: False
        have "inner_loop i blo bhi j2len js
            ((j, j2lenget j2len j + 1) # nj, bi, bs', bs) = (nj', bi', bj', bs'')"
          using Cons.prems(7) False nb nk by (simp add: Let_def)
        then show ?thesis
          using k Cons.prems(1-6)
          by (intro Cons.IH) auto
      qed
    qed
  qed
qed

lemma outer_loop_inv:
  assumes "\<forall>(j, v) \<in> set j2len. v \<le> m - alo" and "alo \<le> m"
    and "alo \<le> bi" and "bi + bs \<le> ahi"
    and "outer_loop a b blo bhi [m..<ahi] (j2len, bi, bj, bs) = (bi', bj', bs')"
  shows "alo \<le> bi' \<and> bi' + bs' \<le> ahi"
  using assms
proof (induction "ahi - m" arbitrary: m j2len bi bj bs)
  case 0
  then show ?case by simp
next
  case (Suc n)
  then have lt: "m < ahi" by simp
  obtain nj ci cj cs where il:
    "inner_loop m blo bhi j2len (b2j b (a ! m)) ([], bi, bj, bs) = (nj, ci, cj, cs)"
    by (metis prod_cases4)
  have inv: "(\<forall>(j, v) \<in> set nj. v \<le> Suc m - alo) \<and> alo \<le> ci \<and> ci + cs \<le> ahi"
    using inner_loop_inv [OF Suc.prems(1) Suc.prems(2) lt _ Suc.prems(3) Suc.prems(4) il]
    by simp
  have "outer_loop a b blo bhi [Suc m..<ahi] (nj, ci, cj, cs) = (bi', bj', bs')"
    using Suc.prems(5) lt il by (simp add: upt_conv_Cons)
  moreover have "n = ahi - Suc m" using Suc.hyps(2) by simp
  ultimately show ?case
    using inv Suc.prems(2) by (intro Suc.hyps(1) [of "Suc m" nj ci cs cj]) auto
qed

lemma extend_left_inv:
  "extend_left a b alo blo bi bj bs = (bi', bj', bs') \<Longrightarrow> alo \<le> bi \<Longrightarrow>
     alo \<le> bi' \<and> bi' + bs' = bi + bs"
  by (induction a b alo blo bi bj bs rule: extend_left.induct) (auto split: if_splits)

lemma extend_left_zero:
  "\<not> alo < bi \<Longrightarrow> extend_left a b alo blo bi bj bs = (bi, bj, bs)"
  by (cases bi) auto

lemma extend_right_inv:
  "bi + bs \<le> ahi \<Longrightarrow> bi + extend_right a b ahi bhi bi bj bs \<le> ahi"
  by (induction a b ahi bhi bi bj bs rule: extend_right.induct)
     (subst extend_right.simps, auto)

lemma extend_right_zero:
  "\<not> bi + bs < ahi \<Longrightarrow> extend_right a b ahi bhi bi bj bs = bs"
  by (subst extend_right.simps) simp

lemma find_longest_match_bounds:
  assumes "find_longest_match a b alo ahi blo bhi = (i, j, k)" and "k \<noteq> 0"
  shows "alo \<le> i \<and> i + k \<le> ahi"
proof (cases "alo \<le> ahi")
  case True
  obtain bi bj bs where ol: "outer_loop a b blo bhi [alo..<ahi] ([], alo, blo, 0) = (bi, bj, bs)"
    by (metis prod_cases3)
  obtain ci cj cs where el: "extend_left a b alo blo bi bj bs = (ci, cj, cs)"
    by (metis prod_cases3)
  have 1: "alo \<le> bi \<and> bi + bs \<le> ahi"
    using outer_loop_inv [of "[]" alo alo alo 0 ahi a b blo bhi blo bi bj bs] ol True by simp
  have 2: "alo \<le> ci \<and> ci + cs = bi + bs"
    using extend_left_inv [OF el] 1 by simp
  have "i = ci" "k = extend_right a b ahi bhi ci cj cs"
    using assms(1) ol el by (auto simp: find_longest_match_def)
  then show ?thesis
    using 1 2 extend_right_inv [of ci cs ahi a b bhi cj] by simp
next
  case False
  then have "find_longest_match a b alo ahi blo bhi = (alo, blo, 0)"
    by (simp add: find_longest_match_def extend_left_zero extend_right_zero)
  with assms show ?thesis by simp
qed

text \<open>The queue is a stack: its head is the end of the Python list.\<close>

definition weight :: "(nat \<times> nat \<times> nat \<times> nat) list \<Rightarrow> nat" where
  "weight queue = sum_list (map (\<lambda>(alo, ahi, blo, bhi). 2 * (ahi - alo) + 1) queue)"

function matching_loop ::
  "string \<Rightarrow> string \<Rightarrow> (nat \<times> nat \<times> nat \<times> nat) list \<Rightarrow> (nat \<times> nat \<times> nat) list \<Rightarrow>
   (nat \<times> nat \<times> nat) list" where
  "matching_loop a b [] matching_blocks = matching_blocks"
| "matching_loop a b ((alo, ahi, blo, bhi) # queue) matching_blocks =
     (case find_longest_match a b alo ahi blo bhi of
        (i, j, k) \<Rightarrow>
          if k \<noteq> 0 then
            matching_loop a b
              ((if i + k < ahi \<and> j + k < bhi then [(i + k, ahi, j + k, bhi)] else []) @
               (if alo < i \<and> blo < j then [(alo, i, blo, j)] else []) @ queue)
              (matching_blocks @ [(i, j, k)])
          else matching_loop a b queue matching_blocks)"
  by pat_completeness auto
termination
proof (relation "measure (\<lambda>(a, b, queue, blocks). weight queue)", goal_cases)
  case 1
  show ?case by simp
next
  case (2 a b alo ahi blo bhi queue matching_blocks x y xa ya)
  then have "find_longest_match a b alo ahi blo bhi = (x, xa, ya)" by simp
  from find_longest_match_bounds [OF this] 2 have "alo \<le> x \<and> x + ya \<le> ahi" by simp
  with 2 show ?case by (auto simp: weight_def)
next
  case 3
  then show ?case by (simp add: weight_def)
qed

fun collapse ::
  "nat \<times> nat \<times> nat \<Rightarrow> (nat \<times> nat \<times> nat) list \<Rightarrow> (nat \<times> nat \<times> nat) list \<Rightarrow>
   (nat \<times> nat \<times> nat) list" where
  "collapse (i1, j1, k1) non_adjacent [] =
     (if k1 \<noteq> 0 then non_adjacent @ [(i1, j1, k1)] else non_adjacent)"
| "collapse (i1, j1, k1) non_adjacent ((i2, j2, k2) # rest) =
     (if i1 + k1 = i2 \<and> j1 + k1 = j2 then collapse (i1, j1, k1 + k2) non_adjacent rest
      else collapse (i2, j2, k2)
             (if k1 \<noteq> 0 then non_adjacent @ [(i1, j1, k1)] else non_adjacent) rest)"

definition get_matching_blocks :: "string \<Rightarrow> string \<Rightarrow> (nat \<times> nat \<times> nat) list" where
  "get_matching_blocks a b =
     (let la = length a; lb = length b;
          matching_blocks = sort (matching_loop a b [(0, la, 0, lb)] []);
          non_adjacent = collapse (0, 0, 0) [] matching_blocks
      in non_adjacent @ [(la, lb, 0)])"

definition calculate_ratio :: "nat \<Rightarrow> nat \<Rightarrow> rat" where
  "calculate_ratio matches len = (if len \<noteq> 0 then 2 * of_nat matches / of_nat len else 1)"

definition ratio :: "string \<Rightarrow> string \<Rightarrow> rat" where
  "ratio a b =
     (let matches = sum_list (map (\<lambda>(i, j, k). k) (get_matching_blocks a b))
      in calculate_ratio matches (length a + length b))"

fun quick_loop :: "string \<Rightarrow> string \<Rightarrow> (char \<times> int) list \<Rightarrow> nat \<Rightarrow> nat" where
  "quick_loop b [] avail matches = matches"
| "quick_loop b (elt # rest) avail matches =
     (let numb = (case map_of avail elt of Some n \<Rightarrow> n | None \<Rightarrow> int (count_list b elt))
      in quick_loop b rest ((elt, numb - 1) # avail)
           (if numb > 0 then matches + 1 else matches))"

definition quick_ratio :: "string \<Rightarrow> string \<Rightarrow> rat" where
  "quick_ratio a b = calculate_ratio (quick_loop b a [] 0) (length a + length b)"

definition real_quick_ratio :: "string \<Rightarrow> string \<Rightarrow> rat" where
  "real_quick_ratio a b =
     (let la = length a; lb = length b in calculate_ratio (min la lb) (la + lb))"

definition nlargest :: "nat \<Rightarrow> ('a::linorder) list \<Rightarrow> 'a list" where
  "nlargest n xs = take n (rev (sort xs))"

definition close_enough :: "rat \<Rightarrow> string \<Rightarrow> string \<Rightarrow> bool" where
  "close_enough cutoff word x =
     (real_quick_ratio x word \<ge> cutoff \<and> quick_ratio x word \<ge> cutoff \<and> ratio x word \<ge> cutoff)"

definition get_close_matches :: "string \<Rightarrow> string list \<Rightarrow> int \<Rightarrow> rat \<Rightarrow> exn + string list" where
  "get_close_matches word possibilities n cutoff =
     (if \<not> n > 0 then Inl ValueError
      else if \<not> (0 \<le> cutoff \<and> cutoff \<le> 1) then Inl ValueError
      else
        (let result = map (\<lambda>x. (ratio x word, x)) (filter (close_enough cutoff word) possibilities)
         in Inr (map snd (nlargest (nat n) result))))"

subsection \<open>The module state and the returned dictionaries\<close>

record state =
  products_db :: "(string \<times> Product) list"
  cart :: Cart
  search_history :: "string list"

text \<open>
  A value that reaches \<open>add_to_cart\<close> as \<open>quantity\<close>. The parameter is annotated
  \<open>int\<close>, and the function tests \<open>isinstance(quantity, int)\<close> itself, so the other
  kinds of value are part of its input. A \<open>bool\<close> is an \<open>int\<close> in Python
  (\<open>True\<close> is \<open>PInt 1\<close>, \<open>False\<close> is \<open>PInt 0\<close>).
\<close>

datatype pyval = PInt int | PFloat rat | PStr string | PNone

text \<open>
  An f-string is kept as the sequence of its literal and interpolated parts, and the
  string \<open>format_price\<close> returns (\<open>f"${amount:,.2f}"\<close>) as the amount it formats.
  The pictograph that opens a message of the source is outside ASCII: it is left out of
  the literal, with the space that follows it, and so are the apostrophes the source
  puts around an interpolated value.
\<close>

datatype frag = Lit string | FStr string | FInt int | FNum rat | FPrice rat

datatype jval =
    JStr string
  | JFmt "frag list"
  | JPrice rat
  | JInt int
  | JNum rat
  | JBool bool
  | JNone
  | JList "jval list"
  | JUnordered "jval list"
  | JDict "(string \<times> jval) list"

text \<open>
  \<open>JUnordered\<close> is a list made from a \<open>set\<close>, whose order Python does not fix; the
  elements are kept in the order of their first occurrence.
\<close>

type_synonym pydict = "(string \<times> jval) list"

definition setitem :: "pydict \<Rightarrow> string \<Rightarrow> jval \<Rightarrow> pydict" where
  "setitem d k v =
     (if k \<in> fst ` set d then map (\<lambda>(k', v'). if k' = k then (k', v) else (k', v')) d
      else d @ [(k, v)])"

definition format_price :: "rat \<Rightarrow> jval" where
  "format_price amount = JPrice amount"

definition opt_str :: "string option \<Rightarrow> jval" where
  "opt_str x = (case x of None \<Rightarrow> JNone | Some v \<Rightarrow> JStr v)"

text \<open>\<open>int(x)\<close> on a float truncates towards zero.\<close>

definition int_of_float :: "rat \<Rightarrow> int" where
  "int_of_float x = (if x \<ge> 0 then \<lfloor>x\<rfloor> else \<lceil>x\<rceil>)"

subsection \<open>Helper functions\<close>

definition find_product_fuzzy ::
  "(string \<times> Product) list \<Rightarrow> string \<Rightarrow> exn + (string \<times> Product) option" where
  "find_product_fuzzy db nm =
     (let name_lower = lower (strip nm) in
      case map_of db name_lower of
        Some p \<Rightarrow> Inr (Some (name_lower, p))
      | None \<Rightarrow>
          (let product_names = map fst db in
           case get_close_matches name_lower product_names 1 (6 / 10) of
             Inl e \<Rightarrow> Inl e
           | Inr matches \<Rightarrow>
               (case matches of
                  match # _ \<Rightarrow>
                    (case subscript db match of
                       Inl e \<Rightarrow> Inl e
                     | Inr p \<Rightarrow> Inr (Some (match, p)))
                | [] \<Rightarrow> Inr None)))"

definition get_cart_item_by_product :: "Cart \<Rightarrow> string \<Rightarrow> CartItem option" where
  "get_cart_item_by_product c pid = find (\<lambda>item. product_id item = pid) (items c)"

text \<open>
  \<open>get_cart_item_by_product\<close> returns the object that sits in \<open>cart.items\<close>, and the
  tools assign to its fields. \<open>update_item pid f\<close> is that assignment: it changes the
  first item whose \<open>product_id\<close> is \<open>pid\<close>, the one the lookup returns.
\<close>

fun update_item :: "string \<Rightarrow> (CartItem \<Rightarrow> CartItem) \<Rightarrow> CartItem list \<Rightarrow> CartItem list" where
  "update_item pid f [] = []"
| "update_item pid f (item # rest) =
     (if product_id item = pid then f item # rest else item # update_item pid f rest)"

subsection \<open>The tools\<close>

fun suggestions_loop :: "(string \<times> Product) list \<Rightarrow> string list \<Rightarrow> exn + frag list list" where
  "suggestions_loop db [] = Inr []"
| "suggestions_loop db (nm # rest) =
     (case subscript db nm of
        Inl e \<Rightarrow> Inl e
      | Inr p \<Rightarrow>
          (case suggestions_loop db rest of
             Inl e \<Rightarrow> Inl e
           | Inr suggestions \<Rightarrow>
               Inr ([FStr (name_p p), Lit '' ('', FPrice (price p), Lit '')''] # suggestions)))"

fun join_frags :: "frag list \<Rightarrow> frag list list \<Rightarrow> frag list" where
  "join_frags sep [] = []"
| "join_frags sep [x] = x"
| "join_frags sep (x # y # rest) = x @ sep @ join_frags sep (y # rest)"

definition search_product_by_name :: "string \<Rightarrow> state \<Rightarrow> exn + pydict \<times> state" where
  "search_product_by_name product_name s0 =
     (let s = s0\<lparr>search_history := search_history s0 @ [product_name]\<rparr> in
      case find_product_fuzzy (products_db s) product_name of
        Inl e \<Rightarrow> Inl e
      | Inr (Some (key, product)) \<Rightarrow>
          Inr ([(''status'', JStr ''success''),
                (''product'', JDict
                   [(''id'', JStr (id_p product)),
                    (''name'', JStr (name_p product)),
                    (''price'', JNum (price product)),
                    (''formatted_price'', format_price (price product)),
                    (''stock'', JInt (stock product)),
                    (''features'', JList (map JStr (features product))),
                    (''category'', JStr (category product)),
                    (''description'', JStr (description product)),
                    (''rating'', JFmt [FNum (rating product), Lit ''/5.0 ('',
                                       FInt (reviews product), Lit '' reviews)'']),
                    (''available'', JBool (stock product > 0))]),
                (''message'', JFmt [Lit ''Product '', FStr (name_p product), Lit '' found.''])],
               s)
      | Inr None \<Rightarrow>
          (case suggestions_loop (products_db s) (take 3 (map fst (products_db s))) of
             Inl e \<Rightarrow> Inl e
           | Inr suggestions \<Rightarrow>
               Inr ([(''status'', JStr ''not_found''),
                     (''message'', JFmt [Lit ''Couldn't find '', FStr product_name, Lit ''.'']),
                     (''suggestions'', JList (map JFmt suggestions)),
                     (''suggestions_text'',
                        JFmt (Lit ''Available products:'' # Lit [CHR 0x5C, CHR ''n''] #
                              join_frags [Lit [CHR 0x5C, CHR ''n'']] suggestions))],
                    s)))"

definition add_to_cart :: "string \<Rightarrow> pyval \<Rightarrow> state \<Rightarrow> exn + pydict \<times> state" where
  "add_to_cart product qty s =
     (let invalid =
            Inr ([(''status'', JStr ''error''),
                  (''message'', JStr ''Quantity must be a positive integer.'')], s)
      in
      case qty of
        PInt q \<Rightarrow>
          if q \<le> 0 then invalid
          else
            (case find_product_fuzzy (products_db s) product of
               Inl e \<Rightarrow> Inl e
             | Inr None \<Rightarrow>
                 Inr ([(''status'', JStr ''error''),
                       (''message'', JFmt [Lit ''Couldn't find product '', FStr product,
                          Lit ''. Use 'search_product' to see options.''])], s)
             | Inr (Some (key, product_info)) \<Rightarrow>
                 (let existing_item = get_cart_item_by_product (cart s) (id_p product_info);
                      current_quantity =
                        (case existing_item of Some item \<Rightarrow> quantity item | None \<Rightarrow> 0)
                  in
                  if current_quantity + q > stock product_info then
                    (let available = stock product_info - current_quantity in
                     Inr ([(''status'', JStr ''error''),
                           (''message'', JFmt [Lit ''Insufficient stock. Only '', FInt available,
                              Lit '' units available for '', FStr (name_p product_info),
                              Lit ''.'']),
                           (''current_stock'', JInt (stock product_info)),
                           (''in_cart'', JInt current_quantity),
                           (''available'', JInt available)], s))
                  else
                    (let items' =
                           (case existing_item of
                              Some _ \<Rightarrow>
                                update_item (id_p product_info)
                                  (\<lambda>item.
                                     let item1 = item\<lparr>quantity := quantity item + q\<rparr>
                                     in item1\<lparr>subtotal :=
                                                 unit_price item1 * of_int (quantity item1)\<rparr>)
                                  (items (cart s))
                            | None \<Rightarrow>
                                items (cart s) @
                                  [CartItem_init (id_p product_info) (name_p product_info)
                                     (price product_info) q]);
                         s' = s\<lparr>cart := (cart s)\<lparr>items := items'\<rparr>\<rparr>;
                         total_items = sum_list (map quantity (items (cart s')));
                         subtotal = get_subtotal (cart s')
                     in
                     Inr ([(''status'', JStr ''success''),
                           (''message'', JFmt [Lit ''Added '', FInt q, Lit ''x '',
                              FStr (name_p product_info), Lit '' to cart.'']),
                           (''added_product'', JDict
                              [(''name'', JStr (name_p product_info)),
                               (''quantity'', JInt q),
                               (''unit_price'', format_price (price product_info)),
                               (''subtotal'', format_price (price product_info * of_int q))]),
                           (''cart_summary'', JDict
                              [(''total_items'', JInt total_items),
                               (''subtotal'', format_price subtotal),
                               (''free_shipping'', JBool (subtotal \<ge> SHIPPING_THRESHOLD))])],
                          s'))))
      | _ \<Rightarrow> invalid)"

definition items_detail_of :: "CartItem list \<Rightarrow> jval list" where
  "items_detail_of its =
     map (\<lambda>item. JDict
            [(''name'', JStr (name item)),
             (''quantity'', JInt (quantity item)),
             (''unit_price'', format_price (unit_price item)),
             (''subtotal'', format_price (subtotal item))]) its"

definition view_cart :: "state \<Rightarrow> exn + pydict \<times> state" where
  "view_cart s =
     (if items (cart s) = [] then
        Inr ([(''status'', JStr ''empty''),
              (''message'', JStr ''Cart is empty.''),
              (''suggestion'',
                 JStr ''You can search for available products or ask for recommendations.'')],
             s)
      else
        (let items_detail = items_detail_of (items (cart s));
             subtotal = get_subtotal (cart s);
             discount = get_discount_amount (cart s);
             tax = get_tax (cart s);
             shipping = get_shipping (cart s);
             total = get_total (cart s);
             summary =
               [(''status'', JStr ''success''),
                (''items'', JList items_detail),
                (''total_products'', JInt (int (length (items (cart s))))),
                (''total_units'', JInt (sum_list (map quantity (items (cart s))))),
                (''calculations'', JDict
                   [(''subtotal'', format_price subtotal),
                    (''discount'', if discount > 0 then format_price discount else JNone),
                    (''discount_code'', opt_str (discount_code (cart s))),
                    (''taxes'', format_price tax),
                    (''shipping'', format_price shipping),
                    (''free_shipping'', JBool (shipping = 0)),
                    (''total'', format_price total)])];
             summary1 =
               (if discount > 0
                then setitem summary ''savings_message''
                       (JFmt [Lit ''You're saving '', FPrice discount, Lit ''!''])
                else summary);
             summary2 =
               (if shipping = 0 \<and> subtotal \<ge> SHIPPING_THRESHOLD
                then setitem summary1 ''shipping_message'' (JStr ''Free shipping included!'')
                else summary1)
         in Inr (summary2, s)))"

definition apply_discount :: "string \<Rightarrow> state \<Rightarrow> exn + pydict \<times> state" where
  "apply_discount code s =
     (if items (cart s) = [] then
        Inr ([(''status'', JStr ''error''),
              (''message'', JStr ''Cart is empty. Add products before applying discounts.'')],
             s)
      else
        (let code_upper = upper (strip code) in
         if code_upper \<notin> set (map fst DISCOUNT_CODES) then
           Inr ([(''status'', JStr ''error''),
                 (''message'', JFmt [Lit ''Code '', FStr code, Lit '' is not valid.'']),
                 (''available_codes'', JList (map JStr (map fst DISCOUNT_CODES)))], s)
         else
           (let s' = s\<lparr>cart := (cart s)\<lparr>discount_code := Some code_upper\<rparr>\<rparr> in
            case subscript DISCOUNT_CODES code_upper of
              Inl e \<Rightarrow> Inl e
            | Inr discount_pct \<Rightarrow>
                (let discount_amt = get_discount_amount (cart s') in
                 Inr ([(''status'', JStr ''success''),
                       (''message'', JFmt [Lit ''Code '', FStr code_upper, Lit '' applied: '',
                          FInt (int_of_float (discount_pct * 100)), Lit ''% discount'']),
                       (''discount'', JDict
                          [(''percentage'',
                              JFmt [FInt (int_of_float (discount_pct * 100)), Lit ''%'']),
                           (''amount'', format_price discount_amt),
                           (''original_subtotal'', format_price (get_subtotal (cart s'))),
                           (''total_with_discount'', format_price (get_total (cart s')))])],
                      s')))))"

definition remove_from_cart :: "string \<Rightarrow> int option \<Rightarrow> state \<Rightarrow> exn + pydict \<times> state" where
  "remove_from_cart product qty s =
     (case find_product_fuzzy (products_db s) product of
        Inl e \<Rightarrow> Inl e
      | Inr None \<Rightarrow>
          Inr ([(''status'', JStr ''error''),
                (''message'', JFmt [Lit ''Product '', FStr product, Lit '' not found in cart.''])],
               s)
      | Inr (Some (key, product_info)) \<Rightarrow>
          (case get_cart_item_by_product (cart s) (id_p product_info) of
             None \<Rightarrow>
               Inr ([(''status'', JStr ''error''),
                     (''message'', JFmt [FStr (name_p product_info),
                        Lit '' is not in the cart.''])], s)
           | Some item \<Rightarrow>
               if (case qty of None \<Rightarrow> True | Some n \<Rightarrow> n \<ge> quantity item) then
                 (case list_remove (items (cart s)) item of
                    Inl e \<Rightarrow> Inl e
                  | Inr items' \<Rightarrow>
                      Inr ([(''status'', JStr ''success''),
                            (''message'', JFmt [Lit ''Completely removed '',
                               FStr (name_p product_info), Lit '' from cart.'']),
                            (''removed_product'', JStr (name_p product_info)),
                            (''removed_quantity'', JInt (quantity item))],
                           s\<lparr>cart := (cart s)\<lparr>items := items'\<rparr>\<rparr>))
               else
                 (case qty of
                    Some n \<Rightarrow>
                      if n > 0 then
                        (let items' =
                               update_item (id_p product_info)
                                 (\<lambda>item.
                                    let item1 = item\<lparr>quantity := quantity item - n\<rparr>
                                    in item1\<lparr>subtotal :=
                                                unit_price item1 * of_int (quantity item1)\<rparr>)
                                 (items (cart s))
                         in
                         Inr ([(''status'', JStr ''success''),
                               (''message'', JFmt [Lit ''Removed '', FInt n, Lit '' units of '',
                                  FStr (name_p product_info), Lit ''.'']),
                               (''removed_quantity'', JInt n),
                               (''remaining_quantity'', JInt (quantity item - n))],
                              s\<lparr>cart := (cart s)\<lparr>items := items'\<rparr>\<rparr>))
                      else
                        Inr ([(''status'', JStr ''error''),
                              (''message'', JStr ''Quantity must be greater than zero.'')], s)
                  | None \<Rightarrow>
                      Inr ([(''status'', JStr ''error''),
                            (''message'', JStr ''Quantity must be greater than zero.'')], s))))"

definition clear_cart :: "state \<Rightarrow> exn + pydict \<times> state" where
  "clear_cart s =
     (let items_count = int (length (items (cart s)));
          units_count = sum_list (map quantity (items (cart s)));
          s' = s\<lparr>cart := (cart s)\<lparr>items := [], discount_code := None\<rparr>\<rparr>
      in Inr ([(''status'', JStr ''success''),
               (''message'', JStr ''Cart cleared successfully.''),
               (''removed_products'', JInt items_count),
               (''removed_units'', JInt units_count)], s'))"

definition calculate_total :: "state \<Rightarrow> exn + pydict \<times> state" where
  "calculate_total s =
     (if items (cart s) = [] then
        Inr ([(''status'', JStr ''empty''),
              (''message'', JStr ''Cart is empty.''),
              (''total'', format_price 0)], s)
      else
        (let subtotal = get_subtotal (cart s);
             discount = get_discount_amount (cart s);
             tax = get_tax (cart s);
             shipping = get_shipping (cart s);
             total = get_total (cart s);
             product_summary =
               map (\<lambda>item. JDict
                      [(''product'', JStr (name item)),
                       (''quantity'', JInt (quantity item)),
                       (''unit_price'', format_price (unit_price item)),
                       (''subtotal'', format_price (CartItem.subtotal item))])
                   (items (cart s));
             breakdown =
               [(''status'', JStr ''success''),
                (''product_summary'', JList product_summary),
                (''subtotal'', format_price subtotal),
                (''discount'',
                   if discount > 0
                   then JDict [(''code'', opt_str (discount_code (cart s))),
                               (''amount'', format_price discount)]
                   else JNone),
                (''taxes'', JDict
                   [(''rate'', JFmt [FInt (int_of_float (TAX_RATE * 100)), Lit ''%'']),
                    (''amount'', format_price tax)]),
                (''shipping'', JDict
                   [(''cost'', format_price shipping),
                    (''free'', JBool (shipping = 0)),
                    (''free_threshold'', format_price SHIPPING_THRESHOLD)]),
                (''total'', format_price total),
                (''message'', JFmt [Lit ''Total to pay: '', FPrice total])];
             savings =
               (if discount > 0 then [JFmt [Lit ''Discount: '', FPrice discount]] else []) @
               (if shipping = 0 \<and> subtotal \<ge> SHIPPING_THRESHOLD
                then [JFmt [Lit ''Free shipping: '', FPrice SHIPPING_COST]] else [])
         in
         Inr (if savings \<noteq> [] then
                setitem breakdown ''total_savings''
                  (JDict [(''items'', JList savings),
                          (''total'',
                             format_price
                               (discount + (if shipping = 0 then SHIPPING_COST else 0)))])
              else breakdown, s)))"

text \<open>
  \<open>products.sort(key=..., reverse=True)\<close>: a stable sort in descending order of the
  key, which leaves products of equal key in their original order.
\<close>

definition sort_reverse :: "('a \<Rightarrow> 'k::linorder) \<Rightarrow> 'a list \<Rightarrow> 'a list" where
  "sort_reverse f xs = rev (sort_key f (rev xs))"

definition recommend_products :: "string option \<Rightarrow> state \<Rightarrow> exn + pydict \<times> state" where
  "recommend_products cat s =
     (let products = map snd (products_db s);
          given = (case cat of None \<Rightarrow> False | Some c \<Rightarrow> c \<noteq> []);
          products1 =
            (case cat of
               Some c \<Rightarrow>
                 if c \<noteq> [] then filter (\<lambda>p. lower (category p) = lower c) products
                 else products
             | None \<Rightarrow> products)
      in
      if given \<and> products1 = [] then
        Inr ([(''status'', JStr ''error''),
              (''message'', JFmt [Lit ''No products in category '',
                 FStr (case cat of Some c \<Rightarrow> c | None \<Rightarrow> []), Lit ''.'']),
              (''available_categories'',
                 JUnordered (map JStr (remdups (map category (map snd (products_db s))))))],
             s)
      else
        (let products2 = sort_reverse (\<lambda>p. (rating p, reviews p)) products1;
             recommendations =
               map (\<lambda>p. JDict
                      [(''name'', JStr (name_p p)),
                       (''price'', format_price (price p)),
                       (''rating'', JFmt [FNum (rating p), Lit ''/5.0'']),
                       (''category'', JStr (category p)),
                       (''description'', JStr (description p)),
                       (''available'', JBool (stock p > 0))])
                   (take 3 products2)
         in
         Inr ([(''status'', JStr ''success''),
               (''category'', JStr (case cat of
                                     Some c \<Rightarrow> if c \<noteq> [] then c else ''All''
                                   | None \<Rightarrow> ''All'')),
               (''recommendations'', JList recommendations),
               (''message'', JFmt [Lit ''Top '', FInt (int (length recommendations)),
                  Lit '' recommended products''])], s)))"

definition show_search_history :: "state \<Rightarrow> exn + pydict \<times> state" where
  "show_search_history s =
     (if search_history s = [] then
        Inr ([(''status'', JStr ''empty''),
              (''message'', JStr ''No recent searches.'')], s)
      else
        Inr ([(''status'', JStr ''success''),
              (''history'',
                 JList (map JStr (drop (length (search_history s) - 5) (search_history s)))),
              (''total_searches'', JInt (int (length (search_history s))))], s))"

subsection \<open>The agent's tool list and the reachable states\<close>

datatype tool =
    SearchProductByName string
  | AddToCart string pyval
  | ViewCart
  | ApplyDiscount string
  | RemoveFromCart string "int option"
  | ClearCart
  | CalculateTotal
  | RecommendProducts "string option"
  | ShowSearchHistory

fun call_tool :: "tool \<Rightarrow> state \<Rightarrow> exn + pydict \<times> state" where
  "call_tool (SearchProductByName product_name) s = search_product_by_name product_name s"
| "call_tool (AddToCart product qty) s = add_to_cart product qty s"
| "call_tool ViewCart s = view_cart s"
| "call_tool (ApplyDiscount code) s = apply_discount code s"
| "call_tool (RemoveFromCart product qty) s = remove_from_cart product qty s"
| "call_tool ClearCart s = clear_cart s"
| "call_tool CalculateTotal s = calculate_total s"
| "call_tool (RecommendProducts cat) s = recommend_products cat s"
| "call_tool ShowSearchHistory s = show_search_history s"

text \<open>The state when the module has been loaded: \<open>cart = Cart()\<close>, \<open>search_history = []\<close>.\<close>

definition initial_state :: state where
  "initial_state =
     \<lparr>products_db = PRODUCTS_DB, cart = \<lparr>items = [], discount_code = None\<rparr>,
      search_history = []\<rparr>"

inductive reachable :: "state \<Rightarrow> bool" where
  start: "reachable initial_state"
| step: "reachable s \<Longrightarrow> call_tool t s = Inr (r, s') \<Longrightarrow> reachable s'"

text \<open>Reading a returned dictionary.\<close>

definition returned :: "exn + pydict \<times> state \<Rightarrow> string \<Rightarrow> jval option" where
  "returned x k = (case x of Inl e \<Rightarrow> None | Inr (r, s') \<Rightarrow> map_of r k)"

definition state_after :: "state \<Rightarrow> exn + pydict \<times> state \<Rightarrow> state" where
  "state_after s x = (case x of Inl e \<Rightarrow> s | Inr (r, s') \<Rightarrow> s')"

definition raises :: "exn + 'a \<Rightarrow> bool" where
  "raises x = (case x of Inl e \<Rightarrow> True | Inr v \<Rightarrow> False)"

section \<open>Properties\<close>

subsection \<open>Notions used to state the properties\<close>

text \<open>
  \<open>in_cart\<close> is the \<open>current_quantity\<close> of \<open>add_to_cart\<close>: the quantity of the line of
  a product, 0 when the cart has none. \<open>set_quantity\<close> is the pair of assignments to
  \<open>quantity\<close> and \<open>subtotal\<close> that \<open>add_to_cart\<close> and \<open>remove_from_cart\<close> make on a
  line, \<open>items_after_add\<close> the item list a successful \<open>add_to_cart\<close> leaves, and
  \<open>with_items\<close> a state whose cart has new items and is otherwise unchanged.
\<close>

definition in_cart :: "Cart \<Rightarrow> string \<Rightarrow> int" where
  "in_cart c pid = (case get_cart_item_by_product c pid of Some item \<Rightarrow> quantity item | None \<Rightarrow> 0)"

definition set_quantity :: "int \<Rightarrow> CartItem \<Rightarrow> CartItem" where
  "set_quantity n item = item\<lparr>quantity := n, subtotal := unit_price item * of_int n\<rparr>"

definition items_after_add :: "Product \<Rightarrow> int \<Rightarrow> CartItem list \<Rightarrow> CartItem list" where
  "items_after_add p q its =
     (case find (\<lambda>item. product_id item = id_p p) its of
        Some item \<Rightarrow> update_item (id_p p) (\<lambda>item. set_quantity (quantity item + q) item) its
      | None \<Rightarrow>
          its @ [\<lparr>product_id = id_p p, name = name_p p, unit_price = price p, quantity = q,
                  subtotal = price p * of_int q\<rparr>])"

definition with_items :: "state \<Rightarrow> CartItem list \<Rightarrow> state" where
  "with_items s its = s\<lparr>cart := (cart s)\<lparr>items := its\<rparr>\<rparr>"

subsection \<open>Product lookup\<close>

lemma subscript_Inr: "k \<in> fst ` set d \<Longrightarrow> \<exists>v. subscript d k = Inr v \<and> map_of d k = Some v"
  by (cases "map_of d k") (auto simp: subscript_def map_of_eq_None_iff)

lemma nlargest_subset: "set (nlargest n xs) \<subseteq> set xs"
  unfolding nlargest_def using set_take_subset [of n "rev (sort xs)"] by simp

lemma sorted_last_greatest:
  "sorted xs \<Longrightarrow> x \<in> set xs \<Longrightarrow> x \<le> last xs"
  by (induction xs) (auto split: if_splits)

lemma nlargest_one_empty: "nlargest (Suc 0) [] = []"
  by (simp add: nlargest_def)

lemma nlargest_one:
  assumes "xs \<noteq> []"
  shows "\<exists>m. nlargest (Suc 0) xs = [m] \<and> m \<in> set xs \<and> (\<forall>x \<in> set xs. x \<le> m)"
proof -
  let ?s = "sort xs"
  have ne: "?s \<noteq> []" using assms by (metis set_empty2 set_sort)
  then have "rev ?s = rev (butlast ?s @ [last ?s])" by simp
  also have "\<dots> = last ?s # rev (butlast ?s)" by simp
  finally have r: "rev ?s = last ?s # rev (butlast ?s)" .
  have "nlargest (Suc 0) xs = take (Suc 0) (rev ?s)" by (simp add: nlargest_def)
  also have "\<dots> = take (Suc 0) (last ?s # rev (butlast ?s))" by (simp only: r)
  also have "\<dots> = [last ?s]" by simp
  finally have "nlargest (Suc 0) xs = [last ?s]" .
  moreover have "last ?s \<in> set xs" using ne last_in_set [of ?s] by simp
  moreover have "\<forall>x \<in> set xs. x \<le> last ?s"
    using sorted_last_greatest [of ?s] by simp
  ultimately show ?thesis by blast
qed

lemma get_close_matches_one:
  "0 \<le> c \<Longrightarrow> c \<le> 1 \<Longrightarrow> get_close_matches w ps 1 c =
     Inr (map snd (nlargest (Suc 0) (map (\<lambda>x. (ratio x w, x)) (filter (close_enough c w) ps))))"
  by (simp add: get_close_matches_def)

lemma find_product_fuzzy_exact:
  "map_of db (lower (strip nm)) = Some p \<Longrightarrow>
     find_product_fuzzy db nm = Inr (Some (lower (strip nm), p))"
  by (simp add: find_product_fuzzy_def)

lemma find_product_fuzzy_none:
  "map_of db (lower (strip nm)) = None \<Longrightarrow>
   filter (close_enough (3 / 5) (lower (strip nm))) (map fst db) = [] \<Longrightarrow>
     find_product_fuzzy db nm = Inr None"
  by (simp add: find_product_fuzzy_def get_close_matches_one nlargest_one_empty)

lemma find_product_fuzzy_close:
  assumes "map_of db (lower (strip nm)) = None"
    and "filter (close_enough (3 / 5) (lower (strip nm))) (map fst db) \<noteq> []"
  shows "\<exists>m p. find_product_fuzzy db nm = Inr (Some (m, p)) \<and> map_of db m = Some p \<and>
           m \<in> set (filter (close_enough (3 / 5) (lower (strip nm))) (map fst db)) \<and>
           (\<forall>x \<in> set (filter (close_enough (3 / 5) (lower (strip nm))) (map fst db)).
              ratio x (lower (strip nm)) < ratio m (lower (strip nm)) \<or>
              (ratio x (lower (strip nm)) = ratio m (lower (strip nm)) \<and> x \<le> m))"
proof -
  let ?k = "lower (strip nm)"
  let ?c = "filter (close_enough (3 / 5) ?k) (map fst db)"
  let ?r = "map (\<lambda>x. (ratio x ?k, x)) ?c"
  have "?r \<noteq> []" using assms(2) by simp
  from nlargest_one [OF this] obtain mm where
    mm: "nlargest (Suc 0) ?r = [mm]" "mm \<in> set ?r" "\<forall>x \<in> set ?r. x \<le> mm"
    by blast
  obtain m where m: "mm = (ratio m ?k, m)" "m \<in> set ?c" using mm(2) by auto
  then have "m \<in> fst ` set db" by auto
  from subscript_Inr [OF this] obtain p where p: "subscript db m = Inr p" "map_of db m = Some p"
    by blast
  have "find_product_fuzzy db nm = Inr (Some (m, p))"
    using assms(1) mm(1) m(1) p(1)
    by (simp add: find_product_fuzzy_def get_close_matches_one)
  moreover have "\<forall>x \<in> set ?c. ratio x ?k < ratio m ?k \<or> (ratio x ?k = ratio m ?k \<and> x \<le> m)"
  proof
    fix x assume "x \<in> set ?c"
    then have "(ratio x ?k, x) \<in> set ?r" by (simp add: image_iff)
    with mm(3) m(1) have "(ratio x ?k, x) \<le> (ratio m ?k, m)" by blast
    then show "ratio x ?k < ratio m ?k \<or> (ratio x ?k = ratio m ?k \<and> x \<le> m)"
      by (auto simp: less_eq_prod_def)
  qed
  ultimately show ?thesis using p(2) m(2) by blast
qed

lemma find_product_fuzzy_total: "\<exists>x. find_product_fuzzy db nm = Inr x"
proof (cases "map_of db (lower (strip nm))")
  case (Some p)
  then show ?thesis using find_product_fuzzy_exact by blast
next
  case None
  then show ?thesis
    using find_product_fuzzy_none [of db nm] find_product_fuzzy_close [of db nm]
    by (cases "filter (close_enough (3 / 5) (lower (strip nm))) (map fst db) = []") blast+
qed

lemma find_product_fuzzy_in_db:
  "find_product_fuzzy db nm = Inr (Some (key, p)) \<Longrightarrow> map_of db key = Some p"
proof (cases "map_of db (lower (strip nm))")
  case (Some q)
  assume "find_product_fuzzy db nm = Inr (Some (key, p))"
  with Some show ?thesis using find_product_fuzzy_exact [OF Some] by simp
next
  case None
  assume a: "find_product_fuzzy db nm = Inr (Some (key, p))"
  show ?thesis
  proof (cases "filter (close_enough (3 / 5) (lower (strip nm))) (map fst db) = []")
    case True
    with None a show ?thesis using find_product_fuzzy_none [of db nm] by simp
  next
    case False
    with None a show ?thesis using find_product_fuzzy_close [of db nm] by auto
  qed
qed

subsection \<open>The tools, case by case\<close>

lemma add_to_cart_total: "\<exists>r s'. add_to_cart product qty s = Inr (r, s')"
proof -
  obtain x where x: "find_product_fuzzy (products_db s) product = Inr x"
    using find_product_fuzzy_total by blast
  show ?thesis
    by (cases qty; cases x) (auto simp: add_to_cart_def x Let_def split: option.splits)
qed

lemma add_to_cart_invalid:
  "(\<forall>q. qty = PInt q \<longrightarrow> q \<le> 0) \<Longrightarrow>
     add_to_cart product qty s =
       Inr ([(''status'', JStr ''error''),
             (''message'', JStr ''Quantity must be a positive integer.'')], s)"
  by (cases qty) (auto simp: add_to_cart_def)

lemma add_to_cart_not_found:
  "0 < q \<Longrightarrow> find_product_fuzzy (products_db s) product = Inr None \<Longrightarrow>
     add_to_cart product (PInt q) s =
       Inr ([(''status'', JStr ''error''),
             (''message'', JFmt [Lit ''Couldn't find product '', FStr product,
                Lit ''. Use 'search_product' to see options.''])], s)"
  by (simp add: add_to_cart_def)

lemma add_to_cart_no_stock:
  "0 < q \<Longrightarrow> find_product_fuzzy (products_db s) product = Inr (Some (key, p)) \<Longrightarrow>
   in_cart (cart s) (id_p p) + q > stock p \<Longrightarrow>
     state_after s (add_to_cart product (PInt q) s) = s \<and>
     \<not> raises (add_to_cart product (PInt q) s) \<and>
     returned (add_to_cart product (PInt q) s) ''status'' = Some (JStr ''error'') \<and>
     returned (add_to_cart product (PInt q) s) ''available'' =
       Some (JInt (stock p - in_cart (cart s) (id_p p)))"
  by (simp add: add_to_cart_def in_cart_def Let_def state_after_def raises_def returned_def)

lemma add_to_cart_ok:
  "0 < q \<Longrightarrow> find_product_fuzzy (products_db s) product = Inr (Some (key, p)) \<Longrightarrow>
   in_cart (cart s) (id_p p) + q \<le> stock p \<Longrightarrow>
     state_after s (add_to_cart product (PInt q) s) =
       with_items s (items_after_add p q (items (cart s))) \<and>
     \<not> raises (add_to_cart product (PInt q) s) \<and>
     returned (add_to_cart product (PInt q) s) ''status'' = Some (JStr ''success'')"
  by (auto simp: add_to_cart_def in_cart_def Let_def state_after_def raises_def returned_def
        with_items_def items_after_add_def get_cart_item_by_product_def CartItem_init_def
        set_quantity_def
      split: option.splits)

lemma remove_from_cart_unresolved:
  "find_product_fuzzy (products_db s) product = Inr None \<Longrightarrow>
     state_after s (remove_from_cart product qty s) = s \<and>
     \<not> raises (remove_from_cart product qty s) \<and>
     returned (remove_from_cart product qty s) ''status'' = Some (JStr ''error'')"
  by (simp add: remove_from_cart_def state_after_def raises_def returned_def)

lemma remove_from_cart_absent:
  "find_product_fuzzy (products_db s) product = Inr (Some (key, p)) \<Longrightarrow>
   get_cart_item_by_product (cart s) (id_p p) = None \<Longrightarrow>
     state_after s (remove_from_cart product qty s) = s \<and>
     \<not> raises (remove_from_cart product qty s) \<and>
     returned (remove_from_cart product qty s) ''status'' = Some (JStr ''error'')"
  by (simp add: remove_from_cart_def state_after_def raises_def returned_def)

lemma find_Some_in_set: "find P xs = Some x \<Longrightarrow> x \<in> set xs \<and> P x"
  by (induction xs) (auto split: if_splits)

lemma remove_from_cart_all:
  assumes "find_product_fuzzy (products_db s) product = Inr (Some (key, p))"
    and "get_cart_item_by_product (cart s) (id_p p) = Some item"
    and "case qty of None \<Rightarrow> True | Some n \<Rightarrow> n \<ge> quantity item"
  shows "state_after s (remove_from_cart product qty s) =
           with_items s (remove1 item (items (cart s))) \<and>
         \<not> raises (remove_from_cart product qty s) \<and>
         returned (remove_from_cart product qty s) ''status'' = Some (JStr ''success'')"
proof -
  have "item \<in> set (items (cart s))"
    using assms(2) find_Some_in_set unfolding get_cart_item_by_product_def by fast
  then have "list_remove (items (cart s)) item = Inr (remove1 item (items (cart s)))"
    by (simp add: list_remove_def)
  with assms show ?thesis
    by (simp add: remove_from_cart_def state_after_def raises_def returned_def with_items_def)
qed

lemma remove_from_cart_some:
  "find_product_fuzzy (products_db s) product = Inr (Some (key, p)) \<Longrightarrow>
   get_cart_item_by_product (cart s) (id_p p) = Some item \<Longrightarrow>
   0 < n \<Longrightarrow> n < quantity item \<Longrightarrow>
     state_after s (remove_from_cart product (Some n) s) =
       with_items s
         (update_item (id_p p) (\<lambda>item. set_quantity (quantity item - n) item) (items (cart s))) \<and>
     \<not> raises (remove_from_cart product (Some n) s) \<and>
     returned (remove_from_cart product (Some n) s) ''status'' = Some (JStr ''success'')"
  by (simp add: remove_from_cart_def state_after_def raises_def returned_def
        with_items_def set_quantity_def Let_def)

lemma remove_from_cart_nonpositive:
  "find_product_fuzzy (products_db s) product = Inr (Some (key, p)) \<Longrightarrow>
   get_cart_item_by_product (cart s) (id_p p) = Some item \<Longrightarrow>
   n \<le> 0 \<Longrightarrow> n < quantity item \<Longrightarrow>
     state_after s (remove_from_cart product (Some n) s) = s \<and>
     \<not> raises (remove_from_cart product (Some n) s) \<and>
     returned (remove_from_cart product (Some n) s) ''status'' = Some (JStr ''error'')"
  by (simp add: remove_from_cart_def state_after_def raises_def returned_def)

lemma apply_discount_empty:
  "items (cart s) = [] \<Longrightarrow>
     state_after s (apply_discount code s) = s \<and>
     \<not> raises (apply_discount code s) \<and>
     returned (apply_discount code s) ''status'' = Some (JStr ''error'')"
  by (simp add: apply_discount_def state_after_def raises_def returned_def)

lemma apply_discount_unknown:
  "items (cart s) \<noteq> [] \<Longrightarrow> upper (strip code) \<notin> fst ` set DISCOUNT_CODES \<Longrightarrow>
     state_after s (apply_discount code s) = s \<and>
     \<not> raises (apply_discount code s) \<and>
     returned (apply_discount code s) ''status'' = Some (JStr ''error'') \<and>
     returned (apply_discount code s) ''available_codes'' =
       Some (JList [JStr ''WELCOME10'', JStr ''SAVE20'', JStr ''VIP30''])"
  by (simp add: apply_discount_def state_after_def raises_def returned_def Let_def
        DISCOUNT_CODES_def)

lemma apply_discount_known:
  "items (cart s) \<noteq> [] \<Longrightarrow> upper (strip code) \<in> fst ` set DISCOUNT_CODES \<Longrightarrow>
     state_after s (apply_discount code s) =
       s\<lparr>cart := (cart s)\<lparr>discount_code := Some (upper (strip code))\<rparr>\<rparr> \<and>
     \<not> raises (apply_discount code s) \<and>
     returned (apply_discount code s) ''status'' = Some (JStr ''success'')"
proof -
  assume a: "items (cart s) \<noteq> []" "upper (strip code) \<in> fst ` set DISCOUNT_CODES"
  from subscript_Inr [OF a(2)] obtain v where "subscript DISCOUNT_CODES (upper (strip code)) = Inr v"
    by blast
  with a show ?thesis
    by (simp add: apply_discount_def state_after_def raises_def returned_def Let_def)
qed

lemma clear_cart_effect:
  "state_after s (clear_cart s) = s\<lparr>cart := (cart s)\<lparr>items := [], discount_code := None\<rparr>\<rparr> \<and>
   \<not> raises (clear_cart s) \<and>
   returned (clear_cart s) ''status'' = Some (JStr ''success'')"
  by (simp add: clear_cart_def state_after_def raises_def returned_def Let_def)

lemma suggestions_loop_total:
  "set ks \<subseteq> fst ` set db \<Longrightarrow> \<exists>x. suggestions_loop db ks = Inr x"
proof (induction ks)
  case Nil
  then show ?case by simp
next
  case (Cons k ks)
  then obtain v x where "subscript db k = Inr v" "suggestions_loop db ks = Inr x"
    using subscript_Inr [of k db] by auto
  then show ?case by simp
qed

lemma search_product_by_name_effect:
  "state_after s (search_product_by_name q s) = s\<lparr>search_history := search_history s @ [q]\<rparr> \<and>
   \<not> raises (search_product_by_name q s) \<and>
   (returned (search_product_by_name q s) ''status'' = Some (JStr ''success'') \<or>
    returned (search_product_by_name q s) ''status'' = Some (JStr ''not_found'')) \<and>
   returned (search_product_by_name q s) ''message'' \<noteq> None"
proof -
  obtain x where x: "find_product_fuzzy (products_db s) q = Inr x"
    using find_product_fuzzy_total by blast
  have "set (take 3 (map fst (products_db s))) \<subseteq> fst ` set (products_db s)"
    using set_take_subset [of 3 "map fst (products_db s)"] by simp
  from suggestions_loop_total [OF this] obtain y where
    y: "suggestions_loop (products_db s) (take 3 (map fst (products_db s))) = Inr y"
    by blast
  show ?thesis
    by (cases x)
       (auto simp: search_product_by_name_def state_after_def raises_def returned_def Let_def x y)
qed

lemma view_cart_effect:
  "state_after s (view_cart s) = s \<and> \<not> raises (view_cart s) \<and>
   returned (view_cart s) ''status'' =
     Some (JStr (if items (cart s) = [] then ''empty'' else ''success'')) \<and>
   (returned (view_cart s) ''message'' = None) = (items (cart s) \<noteq> [])"
  by (simp add: view_cart_def state_after_def raises_def returned_def Let_def setitem_def)

lemma calculate_total_effect:
  "state_after s (calculate_total s) = s \<and> \<not> raises (calculate_total s) \<and>
   returned (calculate_total s) ''status'' =
     Some (JStr (if items (cart s) = [] then ''empty'' else ''success'')) \<and>
   returned (calculate_total s) ''message'' \<noteq> None"
  by (simp add: calculate_total_def state_after_def raises_def returned_def Let_def setitem_def)

lemma recommend_products_effect:
  "state_after s (recommend_products cat s) = s \<and> \<not> raises (recommend_products cat s) \<and>
   (returned (recommend_products cat s) ''status'' = Some (JStr ''success'') \<or>
    returned (recommend_products cat s) ''status'' = Some (JStr ''error'')) \<and>
   returned (recommend_products cat s) ''message'' \<noteq> None"
  by (simp add: recommend_products_def state_after_def raises_def returned_def Let_def)

lemma show_search_history_effect:
  "state_after s (show_search_history s) = s \<and> \<not> raises (show_search_history s) \<and>
   returned (show_search_history s) ''status'' =
     Some (JStr (if search_history s = [] then ''empty'' else ''success'')) \<and>
   (returned (show_search_history s) ''message'' = None) = (search_history s \<noteq> [])"
  by (simp add: show_search_history_def state_after_def raises_def returned_def)

lemma with_items_same: "with_items s (items (cart s)) = s"
  by (simp add: with_items_def)

lemma with_items_ex: "\<exists>its. s = with_items s its"
  by (metis with_items_same)

lemma with_items_simps [simp]:
  "products_db (with_items s its) = products_db s"
  "search_history (with_items s its) = search_history s"
  "items (cart (with_items s its)) = its"
  "discount_code (cart (with_items s its)) = discount_code (cart s)"
  by (simp_all add: with_items_def)

lemma add_to_cart_cases:
  obtains (invalid) "\<forall>q. qty = PInt q \<longrightarrow> q \<le> 0"
  | (not_found) q where "qty = PInt q" "0 < q"
      "find_product_fuzzy (products_db s) product = Inr None"
  | (no_stock) q key p where "qty = PInt q" "0 < q"
      "find_product_fuzzy (products_db s) product = Inr (Some (key, p))"
      "in_cart (cart s) (id_p p) + q > stock p"
  | (ok) q key p where "qty = PInt q" "0 < q"
      "find_product_fuzzy (products_db s) product = Inr (Some (key, p))"
      "in_cart (cart s) (id_p p) + q \<le> stock p"
proof -
  obtain x where x: "find_product_fuzzy (products_db s) product = Inr x"
    using find_product_fuzzy_total by blast
  show ?thesis
  proof (cases "\<forall>q. qty = PInt q \<longrightarrow> q \<le> 0")
    case True
    then show ?thesis by (rule invalid)
  next
    case False
    then obtain q where q: "qty = PInt q" "0 < q" by auto
    show ?thesis
    proof (cases x)
      case None
      with x q show ?thesis by (intro not_found) auto
    next
      case (Some kp)
      obtain key p where "kp = (key, p)" by (cases kp)
      with Some x q show ?thesis
        by (cases "in_cart (cart s) (id_p p) + q > stock p")
           (auto intro: no_stock ok)
    qed
  qed
qed

lemma add_to_cart_frame:
  "\<not> raises (add_to_cart product qty s) \<and>
   (\<exists>its. state_after s (add_to_cart product qty s) = with_items s its)"
proof (cases rule: add_to_cart_cases [where qty = qty and s = s and product = product])
  case invalid
  then show ?thesis
    using add_to_cart_invalid [of qty product s] with_items_ex [of s]
    by (simp add: raises_def state_after_def)
next
  case (not_found q)
  then show ?thesis
    using add_to_cart_not_found [of q s product] with_items_ex [of s]
    by (simp add: raises_def state_after_def)
next
  case (no_stock q key p)
  then show ?thesis
    using add_to_cart_no_stock [of q s product key p] with_items_same [of s]
    by metis
next
  case (ok q key p)
  then show ?thesis
    using add_to_cart_ok [of q s product key p] by metis
qed

lemma remove_from_cart_cases:
  obtains (unresolved) "find_product_fuzzy (products_db s) product = Inr None"
  | (absent) key p where "find_product_fuzzy (products_db s) product = Inr (Some (key, p))"
      "get_cart_item_by_product (cart s) (id_p p) = None"
  | (all) key p item where "find_product_fuzzy (products_db s) product = Inr (Some (key, p))"
      "get_cart_item_by_product (cart s) (id_p p) = Some item"
      "case qty of None \<Rightarrow> True | Some n \<Rightarrow> n \<ge> quantity item"
  | (some) key p item n where "find_product_fuzzy (products_db s) product = Inr (Some (key, p))"
      "get_cart_item_by_product (cart s) (id_p p) = Some item"
      "qty = Some n" "0 < n" "n < quantity item"
  | (nonpositive) key p item n where
      "find_product_fuzzy (products_db s) product = Inr (Some (key, p))"
      "get_cart_item_by_product (cart s) (id_p p) = Some item"
      "qty = Some n" "n \<le> 0" "n < quantity item"
proof -
  obtain x where x: "find_product_fuzzy (products_db s) product = Inr x"
    using find_product_fuzzy_total by blast
  show ?thesis
  proof (cases x)
    case None
    with x show ?thesis by (intro unresolved) simp
  next
    case (Some kp)
    obtain key p where kp: "kp = (key, p)" by (cases kp)
    show ?thesis
    proof (cases "get_cart_item_by_product (cart s) (id_p p)")
      case None
      with Some kp x show ?thesis by (intro absent) auto
    next
      case item: (Some item)
      show ?thesis
      proof (cases qty)
        case None
        with Some kp x item show ?thesis by (intro all) auto
      next
        case n: (Some n)
        consider "n \<ge> quantity item" | "0 < n" "n < quantity item" | "n \<le> 0" "n < quantity item"
          by linarith
        then show ?thesis
        proof cases
          case 1
          with Some kp x item n show ?thesis by (intro all) auto
        next
          case 2
          with Some kp x item n show ?thesis by (intro some) auto
        next
          case 3
          with Some kp x item n show ?thesis by (intro nonpositive) auto
        qed
      qed
    qed
  qed
qed

lemma remove_from_cart_frame:
  "\<not> raises (remove_from_cart product qty s) \<and>
   (\<exists>its. state_after s (remove_from_cart product qty s) = with_items s its)"
proof (cases rule: remove_from_cart_cases [where qty = qty and s = s and product = product])
  case unresolved
  then show ?thesis
    using remove_from_cart_unresolved [of s product qty] with_items_same [of s] by metis
next
  case (absent key p)
  then show ?thesis
    using remove_from_cart_absent [of s product key p qty] with_items_same [of s] by metis
next
  case (all key p item)
  then show ?thesis
    using remove_from_cart_all [of s product key p item qty] by metis
next
  case (some key p item n)
  then show ?thesis
    using remove_from_cart_some [of s product key p item n] by metis
next
  case (nonpositive key p item n)
  then show ?thesis
    using remove_from_cart_nonpositive [of s product key p item n] with_items_same [of s]
    by metis
qed

lemma apply_discount_frame:
  "\<not> raises (apply_discount code s) \<and>
   (state_after s (apply_discount code s) = s \<or>
    state_after s (apply_discount code s) =
      s\<lparr>cart := (cart s)\<lparr>discount_code := Some (upper (strip code))\<rparr>\<rparr> \<and>
    upper (strip code) \<in> fst ` set DISCOUNT_CODES)"
  using apply_discount_empty [of s code] apply_discount_unknown [of s code]
    apply_discount_known [of s code]
  by (cases "items (cart s) = []"; cases "upper (strip code) \<in> fst ` set DISCOUNT_CODES") simp_all

lemma call_tool_total: "\<not> raises (call_tool t s)"
  by (cases t)
     (simp_all add: add_to_cart_frame remove_from_cart_frame apply_discount_frame
        clear_cart_effect search_product_by_name_effect view_cart_effect calculate_total_effect
        recommend_products_effect show_search_history_effect)

lemma call_tool_Inr: "\<exists>r. call_tool t s = Inr (r, state_after s (call_tool t s))"
  using call_tool_total [of t s]
  by (cases "call_tool t s") (auto simp: raises_def state_after_def)

lemma call_tool_products_db: "products_db (state_after s (call_tool t s)) = products_db s"
proof (cases t)
  case (AddToCart product qty)
  then show ?thesis using add_to_cart_frame [of product qty s] by auto
next
  case (RemoveFromCart product qty)
  then show ?thesis using remove_from_cart_frame [of product qty s] by auto
next
  case (ApplyDiscount code)
  then show ?thesis using apply_discount_frame [of code s] by auto
qed (simp_all add: clear_cart_effect search_product_by_name_effect view_cart_effect
       calculate_total_effect recommend_products_effect show_search_history_effect)

lemma call_tool_search_history:
  "search_history (state_after s (call_tool t s)) =
     (case t of SearchProductByName q \<Rightarrow> search_history s @ [q] | _ \<Rightarrow> search_history s)"
proof (cases t)
  case (AddToCart product qty)
  then show ?thesis using add_to_cart_frame [of product qty s] by auto
next
  case (RemoveFromCart product qty)
  then show ?thesis using remove_from_cart_frame [of product qty s] by auto
next
  case (ApplyDiscount code)
  then show ?thesis using apply_discount_frame [of code s] by auto
qed (simp_all add: clear_cart_effect search_product_by_name_effect view_cart_effect
       calculate_total_effect recommend_products_effect show_search_history_effect)

lemma call_tool_cart:
  "cart (state_after s (call_tool t s)) = cart s \<or>
   (\<exists>product qty. t = AddToCart product qty) \<or> (\<exists>product qty. t = RemoveFromCart product qty) \<or>
   (\<exists>code. t = ApplyDiscount code) \<or> t = ClearCart"
  by (cases t)
     (simp_all add: search_product_by_name_effect view_cart_effect
       calculate_total_effect recommend_products_effect show_search_history_effect)

lemma call_tool_discount_code:
  "discount_code (cart (state_after s (call_tool t s))) = discount_code (cart s) \<or>
   (\<exists>code. t = ApplyDiscount code \<and>
      discount_code (cart (state_after s (call_tool t s))) = Some (upper (strip code)) \<and>
      upper (strip code) \<in> fst ` set DISCOUNT_CODES) \<or>
   (t = ClearCart \<and> discount_code (cart (state_after s (call_tool t s))) = None)"
proof (cases t)
  case (AddToCart product qty)
  then show ?thesis using add_to_cart_frame [of product qty s] by auto
next
  case (RemoveFromCart product qty)
  then show ?thesis using remove_from_cart_frame [of product qty s] by auto
next
  case (ApplyDiscount code)
  then show ?thesis using apply_discount_frame [of code s] by auto
qed (simp_all add: clear_cart_effect search_product_by_name_effect view_cart_effect
       calculate_total_effect recommend_products_effect show_search_history_effect)

subsection \<open>The invariant of the reachable states\<close>

text \<open>
  \<open>line_ok\<close>: a line has a positive quantity, its stored subtotal is its unit price
  times its quantity, and it copies the identifier, name and price of a catalog product
  whose stock covers the quantity. \<open>cart_inv\<close>: the catalog is the one loaded, every
  line is \<open>line_ok\<close>, no two lines share a product identifier, and the discount code,
  when there is one, is a key of \<open>DISCOUNT_CODES\<close>.
\<close>

definition line_ok :: "CartItem \<Rightarrow> bool" where
  "line_ok item \<longleftrightarrow>
     0 < quantity item \<and> subtotal item = unit_price item * of_int (quantity item) \<and>
     (\<exists>p \<in> snd ` set PRODUCTS_DB.
        id_p p = product_id item \<and> name_p p = name item \<and> price p = unit_price item \<and>
        quantity item \<le> stock p)"

definition cart_inv :: "state \<Rightarrow> bool" where
  "cart_inv s \<longleftrightarrow>
     products_db s = PRODUCTS_DB \<and>
     (\<forall>item \<in> set (items (cart s)). line_ok item) \<and>
     distinct (map product_id (items (cart s))) \<and>
     (case discount_code (cart s) of None \<Rightarrow> True | Some d \<Rightarrow> d \<in> fst ` set DISCOUNT_CODES)"

lemma product_ids_distinct: "distinct (map (\<lambda>kp. id_p (snd kp)) PRODUCTS_DB)"
  by (simp add: PRODUCTS_DB_def)

lemma products_unique:
  assumes "p \<in> snd ` set PRODUCTS_DB" and "p' \<in> snd ` set PRODUCTS_DB" and "id_p p = id_p p'"
  shows "p = p'"
proof -
  have "inj_on (\<lambda>kp. id_p (snd kp)) (set PRODUCTS_DB)"
    using product_ids_distinct by (simp add: distinct_map)
  then show ?thesis using assms by (auto simp: inj_on_def)
qed

lemma find_None_iff_ids: "find (\<lambda>x. product_id x = pid) xs = None \<longleftrightarrow> pid \<notin> product_id ` set xs"
  by (induction xs) auto

lemma update_item_ids:
  "(\<And>x. product_id (f x) = product_id x) \<Longrightarrow>
     map product_id (update_item pid f xs) = map product_id xs"
  by (induction xs) auto

lemma update_item_set:
  "find (\<lambda>x. product_id x = pid) xs = Some item \<Longrightarrow>
     set (update_item pid f xs) \<subseteq> insert (f item) (set xs)"
  by (induction xs) (auto split: if_splits)

lemma update_item_sum:
  "find (\<lambda>x. product_id x = pid) xs = Some item \<Longrightarrow>
     sum_list (map subtotal (update_item pid f xs)) =
       sum_list (map subtotal xs) - subtotal item + subtotal (f item)"
  by (induction xs) (auto split: if_splits)

lemma update_item_find:
  "find (\<lambda>x. product_id x = pid) xs = Some item \<Longrightarrow> product_id (f item) = pid \<Longrightarrow>
     find (\<lambda>x. product_id x = pid) (update_item pid f xs) = Some (f item)"
  by (induction xs) (auto split: if_splits)

lemma update_item_others:
  "(\<And>x. product_id (f x) = product_id x) \<Longrightarrow>
     filter (\<lambda>x. product_id x \<noteq> pid) (update_item pid f xs) =
     filter (\<lambda>x. product_id x \<noteq> pid) xs"
  by (induction xs) auto

lemma remove1_found:
  "find (\<lambda>x. product_id x = pid) xs = Some item \<Longrightarrow> distinct (map product_id xs) \<Longrightarrow>
     remove1 item xs = filter (\<lambda>x. product_id x \<noteq> pid) xs"
proof (induction xs)
  case Nil
  then show ?case by simp
next
  case (Cons x xs)
  show ?case
  proof (cases "product_id x = pid")
    case True
    with Cons.prems have "item = x" "pid \<notin> product_id ` set xs" by auto
    then have "filter (\<lambda>x. product_id x \<noteq> pid) xs = xs"
      by (auto simp: filter_id_conv)
    with True \<open>item = x\<close> show ?thesis by simp
  next
    case False
    with Cons.prems have "item \<noteq> x" using find_Some_in_set [of _ xs item] by auto
    with False Cons show ?thesis by simp
  qed
qed

lemma set_quantity_simps [simp]:
  "product_id (set_quantity n item) = product_id item"
  "name (set_quantity n item) = name item"
  "unit_price (set_quantity n item) = unit_price item"
  "quantity (set_quantity n item) = n"
  "subtotal (set_quantity n item) = unit_price item * of_int n"
  by (simp_all add: set_quantity_def)

lemma line_ok_set_quantity:
  "line_ok item \<Longrightarrow> 0 < n \<Longrightarrow>
   (\<And>p. p \<in> snd ` set PRODUCTS_DB \<Longrightarrow> id_p p = product_id item \<Longrightarrow> n \<le> stock p) \<Longrightarrow>
     line_ok (set_quantity n item)"
  unfolding line_ok_def by auto

lemma items_ok_update:
  assumes ok: "\<forall>x \<in> set xs. line_ok x" and d: "distinct (map product_id xs)"
    and f: "find (\<lambda>x. product_id x = pid) xs = Some item"
    and n: "0 < n" "\<And>p. p \<in> snd ` set PRODUCTS_DB \<Longrightarrow> id_p p = pid \<Longrightarrow> n \<le> stock p"
  shows "(\<forall>x \<in> set (update_item pid (\<lambda>_. set_quantity n item) xs). line_ok x) \<and>
         distinct (map product_id (update_item pid (\<lambda>_. set_quantity n item) xs))"
proof -
  have item: "item \<in> set xs" "product_id item = pid" using find_Some_in_set [OF f] by auto
  then have "line_ok (set_quantity n item)"
    using ok n by (intro line_ok_set_quantity) auto
  moreover have "map product_id (update_item pid (\<lambda>_. set_quantity n item) xs) = map product_id xs"
    using f item(2)
    by (induction xs) (auto split: if_splits)
  ultimately show ?thesis
    using update_item_set [OF f, of "\<lambda>_. set_quantity n item"] ok d by auto
qed

lemma update_item_const:
  "find (\<lambda>x. product_id x = pid) xs = Some item \<Longrightarrow> distinct (map product_id xs) \<Longrightarrow>
     update_item pid f xs = update_item pid (\<lambda>_. f item) xs"
  by (induction xs) (auto split: if_splits)

lemma in_cart_find:
  "in_cart c pid =
     (case find (\<lambda>x. product_id x = pid) (items c) of Some item \<Rightarrow> quantity item | None \<Rightarrow> 0)"
  by (simp add: in_cart_def get_cart_item_by_product_def)

lemma line_ok_product:
  assumes "line_ok item" and "p \<in> snd ` set PRODUCTS_DB" and "id_p p = product_id item"
  shows "price p = unit_price item \<and> name_p p = name item \<and> quantity item \<le> stock p"
proof -
  from assms(1) obtain p' where p': "p' \<in> snd ` set PRODUCTS_DB" "id_p p' = product_id item"
    "name_p p' = name item" "price p' = unit_price item" "quantity item \<le> stock p'"
    unfolding line_ok_def by blast
  then have "p = p'" using products_unique [OF assms(2) p'(1)] assms(3) by simp
  with p' show ?thesis by simp
qed

lemma items_after_add_ok:
  assumes ok: "\<forall>x \<in> set its. line_ok x" and d: "distinct (map product_id its)"
    and p: "p \<in> snd ` set PRODUCTS_DB" and q: "0 < q"
    and st: "(case find (\<lambda>x. product_id x = id_p p) its of
                Some item \<Rightarrow> quantity item | None \<Rightarrow> 0) + q \<le> stock p"
  shows "(\<forall>x \<in> set (items_after_add p q its). line_ok x) \<and>
         distinct (map product_id (items_after_add p q its))"
proof (cases "find (\<lambda>x. product_id x = id_p p) its")
  case None
  have "line_ok \<lparr>product_id = id_p p, name = name_p p, unit_price = price p, quantity = q,
                  subtotal = price p * of_int q\<rparr>"
    using p q st None unfolding line_ok_def by auto
  moreover have "id_p p \<notin> product_id ` set its" using None by (simp add: find_None_iff_ids)
  ultimately show ?thesis using ok d None by (auto simp: items_after_add_def)
next
  case (Some item)
  have item: "item \<in> set its" "product_id item = id_p p" using find_Some_in_set [OF Some] by auto
  then have "0 < quantity item" using ok unfolding line_ok_def by blast
  then have n: "0 < quantity item + q" using q by simp
  have le: "\<And>p'. p' \<in> snd ` set PRODUCTS_DB \<Longrightarrow> id_p p' = id_p p \<Longrightarrow> quantity item + q \<le> stock p'"
    using products_unique [OF _ p] st Some by auto
  have "items_after_add p q its =
          update_item (id_p p) (\<lambda>_. set_quantity (quantity item + q) item) its"
    using update_item_const [OF Some d, of "\<lambda>item. set_quantity (quantity item + q) item"] Some
    by (simp add: items_after_add_def)
  then show ?thesis using items_ok_update [OF ok d Some n le] by simp
qed

lemma items_after_add_subtotal:
  assumes ok: "\<forall>x \<in> set its. line_ok x" and p: "p \<in> snd ` set PRODUCTS_DB"
  shows "sum_list (map subtotal (items_after_add p q its)) =
           sum_list (map subtotal its) + price p * of_int q"
proof (cases "find (\<lambda>x. product_id x = id_p p) its")
  case None
  then show ?thesis by (simp add: items_after_add_def)
next
  case (Some item)
  have item: "item \<in> set its" "product_id item = id_p p" using find_Some_in_set [OF Some] by auto
  then have l: "line_ok item" using ok by blast
  then have "subtotal item = unit_price item * of_int (quantity item)" unfolding line_ok_def by blast
  moreover have "price p = unit_price item" using line_ok_product [OF l p] item(2) by simp
  ultimately show ?thesis
    using update_item_sum [OF Some, of "\<lambda>item. set_quantity (quantity item + q) item"] Some
    by (simp add: items_after_add_def algebra_simps)
qed

lemma find_append_cases:
  "find P (xs @ ys) = (case find P xs of None \<Rightarrow> find P ys | Some x \<Rightarrow> Some x)"
  by (induction xs) auto

lemma items_after_add_in_cart:
  assumes d: "distinct (map product_id its)"
  shows "(case find (\<lambda>x. product_id x = id_p p) (items_after_add p q its) of
            Some item \<Rightarrow> quantity item | None \<Rightarrow> 0) =
         (case find (\<lambda>x. product_id x = id_p p) its of
            Some item \<Rightarrow> quantity item | None \<Rightarrow> 0) + q"
proof (cases "find (\<lambda>x. product_id x = id_p p) its")
  case None
  then show ?thesis by (simp add: items_after_add_def find_append_cases)
next
  case (Some item)
  have item: "product_id item = id_p p" using find_Some_in_set [OF Some] by auto
  show ?thesis
    using update_item_find [OF Some, of "\<lambda>item. set_quantity (quantity item + q) item"] Some item
    by (simp add: items_after_add_def)
qed

lemma cart_inv_with_items:
  "cart_inv s \<Longrightarrow> \<forall>x \<in> set its. line_ok x \<Longrightarrow> distinct (map product_id its) \<Longrightarrow>
     cart_inv (with_items s its)"
  by (simp add: cart_inv_def)

lemma cart_inv_add:
  assumes inv: "cart_inv s"
  shows "cart_inv (state_after s (add_to_cart product qty s))"
proof (cases rule: add_to_cart_cases [where qty = qty and s = s and product = product])
  case invalid
  then show ?thesis using add_to_cart_invalid [of qty product s] inv by (simp add: state_after_def)
next
  case (not_found q)
  then show ?thesis using add_to_cart_not_found [of q s product] inv by (simp add: state_after_def)
next
  case (no_stock q key p)
  then show ?thesis using add_to_cart_no_stock [of q s product key p] inv by simp
next
  case (ok q key p)
  have "map_of PRODUCTS_DB key = Some p"
    using find_product_fuzzy_in_db [OF ok(3)] inv by (simp add: cart_inv_def)
  then have p: "p \<in> snd ` set PRODUCTS_DB" by (force dest: map_of_SomeD)
  have "(\<forall>x \<in> set (items_after_add p q (items (cart s))). line_ok x) \<and>
         distinct (map product_id (items_after_add p q (items (cart s))))"
    using inv ok(2,4) p by (intro items_after_add_ok) (simp_all add: cart_inv_def in_cart_find)
  then show ?thesis
    using add_to_cart_ok [OF ok(2,3,4)] ok(1) inv by (simp add: cart_inv_with_items)
qed

lemma cart_inv_remove:
  assumes inv: "cart_inv s"
  shows "cart_inv (state_after s (remove_from_cart product qty s))"
proof (cases rule: remove_from_cart_cases [where qty = qty and s = s and product = product])
  case unresolved
  then show ?thesis using remove_from_cart_unresolved [of s product qty] inv by simp
next
  case (absent key p)
  then show ?thesis using remove_from_cart_absent [of s product key p qty] inv by simp
next
  case (all key p item)
  have "set (remove1 item (items (cart s))) \<subseteq> set (items (cart s))"
    by (rule set_remove1_subset)
  moreover have "distinct (map product_id (remove1 item (items (cart s))))"
    using remove1_found [of "id_p p" "items (cart s)" item] all(2) inv
    by (simp add: cart_inv_def get_cart_item_by_product_def distinct_map_filter)
  ultimately show ?thesis
    using remove_from_cart_all [OF all] inv
    by (auto simp: cart_inv_def intro!: cart_inv_with_items)
next
  case (some key p item n)
  have f: "find (\<lambda>x. product_id x = id_p p) (items (cart s)) = Some item"
    using some(2) by (simp add: get_cart_item_by_product_def)
  have item: "item \<in> set (items (cart s))" "product_id item = id_p p"
    using find_Some_in_set [OF f] by auto
  have ok: "\<forall>x \<in> set (items (cart s)). line_ok x" and d: "distinct (map product_id (items (cart s)))"
    using inv by (simp_all add: cart_inv_def)
  have l: "line_ok item" using ok item by blast
  have le: "\<And>p'. p' \<in> snd ` set PRODUCTS_DB \<Longrightarrow> id_p p' = id_p p \<Longrightarrow> quantity item - n \<le> stock p'"
    using line_ok_product [OF l] item(2) some(4) by fastforce
  have "update_item (id_p p) (\<lambda>item. set_quantity (quantity item - n) item) (items (cart s)) =
        update_item (id_p p) (\<lambda>_. set_quantity (quantity item - n) item) (items (cart s))"
    by (rule update_item_const [OF f d])
  moreover have "0 < quantity item - n" using some(5) by simp
  note items_ok_update [where n = "quantity item - n", OF ok d f this le]
  ultimately show ?thesis
    using remove_from_cart_some [OF some(1,2,4,5)] some(3) inv
    by (simp add: cart_inv_with_items)
next
  case (nonpositive key p item n)
  then show ?thesis using remove_from_cart_nonpositive [of s product key p item n] inv by simp
qed

lemma cart_inv_step:
  assumes inv: "cart_inv s"
  shows "cart_inv (state_after s (call_tool t s))"
proof (cases t)
  case (SearchProductByName q)
  then show ?thesis using inv by (simp add: search_product_by_name_effect cart_inv_def)
next
  case (AddToCart product qty)
  then show ?thesis using cart_inv_add [OF inv] by simp
next
  case ViewCart
  then show ?thesis using inv by (simp add: view_cart_effect)
next
  case (ApplyDiscount code)
  then show ?thesis using apply_discount_frame [of code s] inv by (force simp: cart_inv_def)
next
  case (RemoveFromCart product qty)
  then show ?thesis using cart_inv_remove [OF inv] by simp
next
  case ClearCart
  then show ?thesis using inv by (simp add: clear_cart_effect cart_inv_def)
next
  case CalculateTotal
  then show ?thesis using inv by (simp add: calculate_total_effect)
next
  case (RecommendProducts cat)
  then show ?thesis using inv by (simp add: recommend_products_effect)
next
  case ShowSearchHistory
  then show ?thesis using inv by (simp add: show_search_history_effect)
qed

lemma reachable_cart_inv: "reachable s \<Longrightarrow> cart_inv s"
proof (induction rule: reachable.induct)
  case start
  show ?case by (simp add: cart_inv_def initial_state_def)
next
  case (step s t r s')
  then show ?case using cart_inv_step [of s t] by (simp add: state_after_def)
qed

subsection \<open>Example states\<close>

text \<open>
  The state after \<open>add_to_cart("gaming mouse pro", 1)\<close> and \<open>apply_discount("welcome10")\<close>.
\<close>

definition mouse_with_code :: state where
  "mouse_with_code =
     \<lparr>products_db = PRODUCTS_DB,
      cart = \<lparr>items = [\<lparr>product_id = ''MOU002'', name = ''Gaming Mouse Pro'', unit_price = 80,
                        quantity = 1, subtotal = 80\<rparr>],
              discount_code = Some ''WELCOME10''\<rparr>,
      search_history = []\<rparr>"

lemma reachable_state_after: "reachable s \<Longrightarrow> reachable (state_after s (call_tool t s))"
  using call_tool_Inr [of t s] by (auto intro: reachable.step)

lemma mouse_with_code_eq:
  "mouse_with_code =
     state_after (state_after initial_state (call_tool (AddToCart ''gaming mouse pro'' (PInt 1)) initial_state))
       (call_tool (ApplyDiscount ''welcome10'')
          (state_after initial_state (call_tool (AddToCart ''gaming mouse pro'' (PInt 1)) initial_state)))"
  by code_simp

lemma reachable_mouse_with_code: "reachable mouse_with_code"
  unfolding mouse_with_code_eq by (intro reachable_state_after reachable.start)

subsection \<open>The discount code under \<open>remove_from_cart\<close> and \<open>clear_cart\<close>\<close>

text \<open>
  C10. \<open>remove_from_cart\<close> returns for every state and every input, and the discount code
  of the cart after the call is the one before it. Of all the tools, only \<open>clear_cart\<close>
  takes a cart that has a discount code to one that has none, and \<open>clear_cart\<close> always
  leaves none.
\<close>

theorem remove_from_cart_keeps_discount_code:
  "\<not> raises (remove_from_cart product qty s) \<and>
   discount_code (cart (state_after s (remove_from_cart product qty s))) = discount_code (cart s) \<and>
   (\<forall>t. discount_code (cart s) \<noteq> None \<and>
        discount_code (cart (state_after s (call_tool t s))) = None \<longrightarrow> t = ClearCart) \<and>
   discount_code (cart (state_after s (clear_cart s))) = None"
proof -
  have "\<forall>t. discount_code (cart s) \<noteq> None \<and>
        discount_code (cart (state_after s (call_tool t s))) = None \<longrightarrow> t = ClearCart"
    using call_tool_discount_code [of s] by (metis option.distinct(1))
  then show ?thesis
    using remove_from_cart_frame [of product qty s] by (auto simp: clear_cart_effect)
qed

text \<open>
  Removing the only line of a cart that carries \<open>WELCOME10\<close> leaves an empty cart that
  still carries \<open>WELCOME10\<close>.
\<close>

theorem remove_from_cart_keeps_discount_code_witness:
  "discount_code (cart mouse_with_code) = Some ''WELCOME10'' \<and>
   items (cart (state_after mouse_with_code
                  (remove_from_cart ''gaming mouse pro'' None mouse_with_code))) = [] \<and>
   discount_code (cart (state_after mouse_with_code
                  (remove_from_cart ''gaming mouse pro'' None mouse_with_code))) =
     Some ''WELCOME10'' \<and>
   discount_code (cart (state_after mouse_with_code (call_tool ClearCart mouse_with_code))) = None"
proof -
  have 1: "discount_code (cart mouse_with_code) = Some ''WELCOME10''"
    by (simp add: mouse_with_code_def)
  have 2: "items (cart (state_after mouse_with_code
                  (remove_from_cart ''gaming mouse pro'' None mouse_with_code))) = []"
    by code_simp
  have 3: "discount_code (cart (state_after mouse_with_code
                  (call_tool ClearCart mouse_with_code))) = None"
    by (simp add: clear_cart_effect)
  show ?thesis
    using remove_from_cart_keeps_discount_code [of "''gaming mouse pro''" None mouse_with_code]
      1 2 3 by simp
qed






subsection \<open>Lines of the cart\<close>



subsection \<open>Totals\<close>








subsection \<open>Effects of the tools on the module state\<close>

text \<open>
  C9, as amended. No tool raises and no tool changes the catalog. A tool other than
  \<open>search_product_by_name\<close> leaves \<open>search_history\<close> as it is, and a tool other than
  \<open>add_to_cart\<close>, \<open>remove_from_cart\<close>, \<open>apply_discount\<close> and \<open>clear_cart\<close> leaves the cart
  as it is. \<open>search_product_by_name\<close> appends its argument to \<open>search_history\<close>, which
  is state outside the cart.
\<close>

theorem tools_frame:
  "\<not> raises (call_tool t s) \<and>
   products_db (state_after s (call_tool t s)) = products_db s \<and>
   search_history (state_after s (call_tool t s)) =
     (case t of SearchProductByName q \<Rightarrow> search_history s @ [q] | _ \<Rightarrow> search_history s) \<and>
   (cart (state_after s (call_tool t s)) = cart s \<or>
    (\<exists>product qty. t = AddToCart product qty) \<or>
    (\<exists>product qty. t = RemoveFromCart product qty) \<or>
    (\<exists>code. t = ApplyDiscount code) \<or> t = ClearCart)"
  using call_tool_total [of t s] call_tool_products_db [of s t] call_tool_search_history [of s t]
    call_tool_cart [of s t]
  by blast

theorem tools_frame_witness:
  "products_db (state_after initial_state
      (call_tool (SearchProductByName ''monitor'') initial_state)) = PRODUCTS_DB \<and>
   cart (state_after initial_state
      (call_tool (SearchProductByName ''monitor'') initial_state)) = cart initial_state \<and>
   search_history (state_after initial_state
      (call_tool (SearchProductByName ''monitor'') initial_state)) = [''monitor'']"
  using tools_frame [of "SearchProductByName ''monitor''" initial_state]
  by (simp add: initial_state_def)

text \<open>
  The claim as it was stated fails: a search changes \<open>search_history\<close>.
\<close>

theorem search_changes_history:
  "search_history (state_after initial_state
      (call_tool (SearchProductByName ''monitor'') initial_state)) \<noteq>
   search_history initial_state"
  by (simp add: search_product_by_name_effect initial_state_def)

subsection \<open>Discount codes\<close>



lemma resolved_in_catalog:
  assumes "cart_inv s" and "find_product_fuzzy (products_db s) product = Inr (Some (key, p))"
  shows "p \<in> snd ` set PRODUCTS_DB"
proof -
  have "map_of PRODUCTS_DB key = Some p"
    using find_product_fuzzy_in_db [OF assms(2)] assms(1) by (simp add: cart_inv_def)
  then show ?thesis by (force dest: map_of_SomeD)
qed

subsection \<open>Adding to the cart\<close>

text \<open>
  C2, as amended. In a reachable state \<open>add_to_cart\<close> never raises, and
  \<^item> a quantity that is not an \<open>int\<close>, or is not positive, gives status \<open>error\<close> and
    leaves the state as it is;
  \<^item> a product that \<open>find_product_fuzzy\<close> does not resolve gives the dictionary of a
    status \<open>error\<close> and a message that names the search tool, with no list of
    suggestions, and leaves the state as it is;
  \<^item> when the quantity in the cart plus the quantity asked exceeds the stock, the status
    is \<open>error\<close>, the key \<open>available\<close> holds the stock minus the quantity in the cart,
    and the state is left as it is;
  \<^item> otherwise the status is \<open>success\<close>, the only change of the state is that the
    line of the product has its quantity raised and its subtotal recomputed, or that a
    new line is appended when there was none, and the subtotal of the cart has grown by
    the price of the product times the quantity.
\<close>

theorem add_to_cart_amended:
  assumes "reachable s"
  shows
    "let r = add_to_cart product qty s; s' = state_after s r;
         rejected = (returned r ''status'' = Some (JStr ''error'') \<and> s' = s)
     in \<not> raises r \<and>
        (case qty of
           PInt q \<Rightarrow>
             if q \<le> 0 then rejected
             else
               (case find_product_fuzzy (products_db s) product of
                  Inl e \<Rightarrow> False
                | Inr None \<Rightarrow>
                    r = Inr ([(''status'', JStr ''error''),
                              (''message'', JFmt [Lit ''Couldn't find product '', FStr product,
                                 Lit ''. Use 'search_product' to see options.''])], s) \<and>
                    returned r ''suggestions'' = None \<and> rejected
                | Inr (Some (key, p)) \<Rightarrow>
                    if in_cart (cart s) (id_p p) + q > stock p then
                      rejected \<and>
                      returned r ''available'' = Some (JInt (stock p - in_cart (cart s) (id_p p)))
                    else
                      returned r ''status'' = Some (JStr ''success'') \<and>
                      s' = with_items s (items_after_add p q (items (cart s))) \<and>
                      in_cart (cart s') (id_p p) = in_cart (cart s) (id_p p) + q \<and>
                      get_subtotal (cart s') = get_subtotal (cart s) + price p * of_int q)
         | _ \<Rightarrow> rejected)"
proof -
  have inv: "cart_inv s" by (rule reachable_cart_inv [OF assms])
  show ?thesis
  proof (cases rule: add_to_cart_cases [where qty = qty and s = s and product = product])
    case invalid
    then show ?thesis
      using add_to_cart_invalid [OF invalid, of product s]
      by (cases qty) (simp_all add: Let_def raises_def returned_def state_after_def)
  next
    case (not_found q)
    then show ?thesis
      using add_to_cart_not_found [OF not_found(2,3)]
      by (simp add: Let_def raises_def returned_def state_after_def)
  next
    case (no_stock q key p)
    then show ?thesis
      using add_to_cart_no_stock [OF no_stock(2,3,4)] by (simp add: Let_def)
  next
    case (ok q key p)
    have p: "p \<in> snd ` set PRODUCTS_DB" by (rule resolved_in_catalog [OF inv ok(3)])
    have lines: "\<forall>x \<in> set (items (cart s)). line_ok x"
      and d: "distinct (map product_id (items (cart s)))"
      using inv by (simp_all add: cart_inv_def)
    have 1: "in_cart (cart (with_items s (items_after_add p q (items (cart s))))) (id_p p) =
               in_cart (cart s) (id_p p) + q"
      using items_after_add_in_cart [OF d, of p q] by (simp add: in_cart_find)
    have 2: "get_subtotal (cart (with_items s (items_after_add p q (items (cart s))))) =
               get_subtotal (cart s) + price p * of_int q"
      using items_after_add_subtotal [OF lines p, of q] by (simp add: get_subtotal_def)
    show ?thesis
      using add_to_cart_ok [OF ok(2,3,4)] ok 1 2 by (simp add: Let_def)
  qed
qed

text \<open>
  From the empty cart, 15 mice fit the stock of 15 and raise the subtotal by 15 times 80.
\<close>

theorem add_to_cart_amended_witness:
  "reachable initial_state \<and>
   returned (add_to_cart ''gaming mouse pro'' (PInt 15) initial_state) ''status'' =
     Some (JStr ''success'') \<and>
   get_subtotal (cart (state_after initial_state
      (add_to_cart ''gaming mouse pro'' (PInt 15) initial_state))) = 1200"
proof -
  have 1: "find_product_fuzzy (products_db initial_state) ''gaming mouse pro'' =
             Inr (Some (''gaming mouse pro'',
               \<lparr>id_p = ''MOU002'', name_p = ''Gaming Mouse Pro'', price = 80, stock = 15,
                features = [''16000 DPI'', ''RGB'', ''8 programmable buttons'', ''Wireless''],
                category = ''Peripherals'',
                description = ''Professional gaming mouse with high-precision sensor'',
                rating = 47 / 10, reviews = 156\<rparr>))"
    by code_simp
  have 2: "in_cart (cart initial_state) ''MOU002'' = 0"
    by (simp add: in_cart_def get_cart_item_by_product_def initial_state_def)
  have 3: "get_subtotal (cart initial_state) = 0"
    by (simp add: get_subtotal_def initial_state_def)
  show ?thesis
    using add_to_cart_amended [OF reachable.start, of "''gaming mouse pro''" "PInt 15"]
      reachable.start 1 2 3
    by (auto simp: Let_def)
qed

text \<open>
  The claim as it was stated fails: the result for an unresolved product lists no
  suggestions.
\<close>

theorem add_to_cart_unresolved_no_suggestions:
  "add_to_cart ''xyz123'' (PInt 1) initial_state =
     Inr ([(''status'', JStr ''error''),
           (''message'', JFmt [Lit ''Couldn't find product '', FStr ''xyz123'',
              Lit ''. Use 'search_product' to see options.''])], initial_state)"
proof -
  have "find_product_fuzzy (products_db initial_state) ''xyz123'' = Inr None"
    by code_simp
  then show ?thesis by (simp add: add_to_cart_not_found)
qed

subsection \<open>Removing from the cart\<close>

lemma removed_line_gone:
  "find (\<lambda>x. product_id x = pid) (filter (\<lambda>x. product_id x \<noteq> pid) xs) = None"
  by (auto simp: find_None_iff_ids)

text \<open>
  C4. In a reachable state \<open>remove_from_cart\<close> never raises, and
  \<^item> when the product is not resolved, or is resolved and has no line in the cart, the
    status is \<open>error\<close> and the state is left as it is;
  \<^item> when the quantity is omitted or at least the quantity of the line, the status is
    \<open>success\<close> and the only change of the state is that the line of the product is gone
    (no line of that product is left, the other lines are kept in their order);
  \<^item> when the quantity \<open>n\<close> is positive and less than the quantity of the line, the
    status is \<open>success\<close> and the only change is that the line now has the quantity
    \<open>current - n\<close> and the subtotal \<open>unit_price * (current - n)\<close>;
  \<^item> when the quantity is given and not positive, the status is \<open>error\<close> and the state
    is left as it is.
\<close>

theorem remove_from_cart_correct:
  assumes "reachable s"
  shows
    "let r = remove_from_cart product qty s; s' = state_after s r;
         rejected = (returned r ''status'' = Some (JStr ''error'') \<and> s' = s)
     in \<not> raises r \<and>
        (case find_product_fuzzy (products_db s) product of
           Inl e \<Rightarrow> False
         | Inr None \<Rightarrow> rejected
         | Inr (Some (key, p)) \<Rightarrow>
             (case get_cart_item_by_product (cart s) (id_p p) of
                None \<Rightarrow> rejected
              | Some item \<Rightarrow>
                  (let removed =
                         (returned r ''status'' = Some (JStr ''success'') \<and>
                          s' = with_items s
                                 (filter (\<lambda>x. product_id x \<noteq> id_p p) (items (cart s))) \<and>
                          get_cart_item_by_product (cart s') (id_p p) = None)
                   in case qty of
                        None \<Rightarrow> removed
                      | Some n \<Rightarrow>
                          if n \<ge> quantity item then removed
                          else if 0 < n then
                            returned r ''status'' = Some (JStr ''success'') \<and>
                            s' = with_items s
                                   (update_item (id_p p)
                                      (\<lambda>_. item\<lparr>quantity := quantity item - n,
                                                 subtotal := unit_price item *
                                                   of_int (quantity item - n)\<rparr>)
                                      (items (cart s))) \<and>
                            get_cart_item_by_product (cart s') (id_p p) =
                              Some (item\<lparr>quantity := quantity item - n,
                                         subtotal := unit_price item *
                                           of_int (quantity item - n)\<rparr>) \<and>
                            filter (\<lambda>x. product_id x \<noteq> id_p p) (items (cart s')) =
                              filter (\<lambda>x. product_id x \<noteq> id_p p) (items (cart s))
                          else rejected))) \<and>
        ((case qty of None \<Rightarrow> False | Some n \<Rightarrow> n \<le> 0) \<longrightarrow> rejected)"
proof -
  have inv: "cart_inv s" by (rule reachable_cart_inv [OF assms])
  have lines: "\<forall>x \<in> set (items (cart s)). line_ok x"
    and d: "distinct (map product_id (items (cart s)))"
    using inv by (simp_all add: cart_inv_def)
  show ?thesis
  proof (cases rule: remove_from_cart_cases [where qty = qty and s = s and product = product])
    case unresolved
    then show ?thesis
      using remove_from_cart_unresolved [OF unresolved, of qty] by (simp add: Let_def)
  next
    case (absent key p)
    then show ?thesis
      using remove_from_cart_absent [OF absent, of qty] by (simp add: Let_def)
  next
    case (all key p item)
    have f: "find (\<lambda>x. product_id x = id_p p) (items (cart s)) = Some item"
      using all(2) by (simp add: get_cart_item_by_product_def)
    have pos: "0 < quantity item"
      using find_Some_in_set [OF f] lines unfolding line_ok_def by blast
    have rm: "remove1 item (items (cart s)) =
              filter (\<lambda>x. product_id x \<noteq> id_p p) (items (cart s))"
      by (rule remove1_found [OF f d])
    have gone: "get_cart_item_by_product
                  (cart (with_items s (filter (\<lambda>x. product_id x \<noteq> id_p p) (items (cart s)))))
                  (id_p p) = None"
      by (simp add: get_cart_item_by_product_def removed_line_gone)
    show ?thesis
      using remove_from_cart_all [OF all] all rm gone pos
      by (cases qty) (auto simp: Let_def)
  next
    case (some key p item n)
    have f: "find (\<lambda>x. product_id x = id_p p) (items (cart s)) = Some item"
      using some(2) by (simp add: get_cart_item_by_product_def)
    have pid: "product_id item = id_p p" using find_Some_in_set [OF f] by simp
    have sq: "set_quantity (quantity item - n) item =
              item\<lparr>quantity := quantity item - n,
                   subtotal := unit_price item * of_int (quantity item - n)\<rparr>"
      by (simp add: set_quantity_def)
    have c: "update_item (id_p p) (\<lambda>item. set_quantity (quantity item - n) item) (items (cart s)) =
             update_item (id_p p) (\<lambda>_. set_quantity (quantity item - n) item) (items (cart s))"
      by (rule update_item_const [OF f d])
    have fnd: "find (\<lambda>x. product_id x = id_p p)
                 (update_item (id_p p) (\<lambda>_. set_quantity (quantity item - n) item)
                    (items (cart s))) = Some (set_quantity (quantity item - n) item)"
      using update_item_find [OF f, of "\<lambda>_. set_quantity (quantity item - n) item"] pid by simp
    have oth: "filter (\<lambda>x. product_id x \<noteq> id_p p)
                 (update_item (id_p p) (\<lambda>item. set_quantity (quantity item - n) item)
                    (items (cart s))) =
               filter (\<lambda>x. product_id x \<noteq> id_p p) (items (cart s))"
      by (rule update_item_others) simp
    show ?thesis
      using remove_from_cart_some [OF some(1,2,4,5)] some c fnd oth
      by (simp add: Let_def get_cart_item_by_product_def sq)
  next
    case (nonpositive key p item n)
    then show ?thesis
      using remove_from_cart_nonpositive [OF nonpositive(1,2,4,5)] by (simp add: Let_def)
  qed
qed

text \<open>The state after \<open>add_to_cart("gaming mouse pro", 3)\<close>.\<close>

definition three_mice :: state where
  "three_mice =
     \<lparr>products_db = PRODUCTS_DB,
      cart = \<lparr>items = [\<lparr>product_id = ''MOU002'', name = ''Gaming Mouse Pro'', unit_price = 80,
                        quantity = 3, subtotal = 240\<rparr>],
              discount_code = None\<rparr>,
      search_history = []\<rparr>"

lemma three_mice_eq:
  "three_mice =
     state_after initial_state (call_tool (AddToCart ''gaming mouse pro'' (PInt 3)) initial_state)"
  by code_simp

lemma reachable_three_mice: "reachable three_mice"
  unfolding three_mice_eq by (intro reachable_state_after reachable.start)

text \<open>
  With three mice in the cart, removing two leaves one at subtotal 80, and removing
  zero is an error that changes nothing.
\<close>

theorem remove_from_cart_correct_witness:
  "reachable three_mice \<and>
   returned (remove_from_cart ''gaming mouse pro'' (Some 2) three_mice) ''status'' =
     Some (JStr ''success'') \<and>
   map quantity (items (cart (state_after three_mice
      (remove_from_cart ''gaming mouse pro'' (Some 2) three_mice)))) = [1] \<and>
   map subtotal (items (cart (state_after three_mice
      (remove_from_cart ''gaming mouse pro'' (Some 2) three_mice)))) = [80] \<and>
   returned (remove_from_cart ''gaming mouse pro'' (Some 0) three_mice) ''status'' =
     Some (JStr ''error'') \<and>
   state_after three_mice (remove_from_cart ''gaming mouse pro'' (Some 0) three_mice) =
     three_mice"
proof -
  have 1: "find_product_fuzzy (products_db three_mice) ''gaming mouse pro'' =
             Inr (Some (''gaming mouse pro'',
               \<lparr>id_p = ''MOU002'', name_p = ''Gaming Mouse Pro'', price = 80, stock = 15,
                features = [''16000 DPI'', ''RGB'', ''8 programmable buttons'', ''Wireless''],
                category = ''Peripherals'',
                description = ''Professional gaming mouse with high-precision sensor'',
                rating = 47 / 10, reviews = 156\<rparr>))"
    by code_simp
  have 2: "get_cart_item_by_product (cart three_mice) ''MOU002'' =
             Some \<lparr>product_id = ''MOU002'', name = ''Gaming Mouse Pro'', unit_price = 80,
                   quantity = 3, subtotal = 240\<rparr>"
    by (simp add: get_cart_item_by_product_def three_mice_def)
  have 3: "items (cart three_mice) =
             [\<lparr>product_id = ''MOU002'', name = ''Gaming Mouse Pro'', unit_price = 80,
               quantity = 3, subtotal = 240\<rparr>]"
    by (simp add: three_mice_def)
  have a: "returned (remove_from_cart ''gaming mouse pro'' (Some 2) three_mice) ''status'' =
             Some (JStr ''success'') \<and>
           map quantity (items (cart (state_after three_mice
             (remove_from_cart ''gaming mouse pro'' (Some 2) three_mice)))) = [1] \<and>
           map subtotal (items (cart (state_after three_mice
             (remove_from_cart ''gaming mouse pro'' (Some 2) three_mice)))) = [80]"
    using remove_from_cart_correct [OF reachable_three_mice, of "''gaming mouse pro''" "Some 2"]
      1 2 3
    by (auto simp: Let_def)
  have b: "returned (remove_from_cart ''gaming mouse pro'' (Some 0) three_mice) ''status'' =
             Some (JStr ''error'') \<and>
           state_after three_mice (remove_from_cart ''gaming mouse pro'' (Some 0) three_mice) =
             three_mice"
    using remove_from_cart_correct [OF reachable_three_mice, of "''gaming mouse pro''" "Some 0"]
    by (simp add: Let_def)
  show ?thesis using a b reachable_three_mice by blast
qed

subsection \<open>The shape of the returned dictionaries\<close>







subsection \<open>Product lookup\<close>




subsection \<open>Recommendations\<close>

lemma sort_reverse_descending:
  "sorted_wrt (\<lambda>a b. f b \<le> f a) (sort_reverse f xs)"
proof -
  have "sorted (map f (sort_key f (rev xs)))" by (rule sorted_sort_key)
  then have "sorted_wrt (\<lambda>a b. f a \<le> f b) (sort_key f (rev xs))"
    by (simp add: sorted_map)
  then show ?thesis by (simp add: sort_reverse_def sorted_wrt_rev)
qed

lemma sort_reverse_stable:
  "filter (\<lambda>y. f y = k) (sort_reverse f xs) = filter (\<lambda>y. f y = k) xs"
proof -
  have "filter (\<lambda>y. f y = k) (sort_reverse f xs) =
        rev (filter (\<lambda>y. f y = k) (sort_key f (rev xs)))"
    by (simp add: sort_reverse_def rev_filter)
  also have "\<dots> = rev (filter (\<lambda>y. f y = k) (rev xs))"
    by (simp only: sort_key_stable)
  also have "\<dots> = filter (\<lambda>y. f y = k) xs"
    by (simp add: rev_filter)
  finally show ?thesis .
qed

lemma sort_reverse_set: "set (sort_reverse f xs) = set xs"
  by (simp add: sort_reverse_def)

lemma sort_reverse_length: "length (sort_reverse f xs) = length xs"
  by (simp add: sort_reverse_def)

lemma sort_reverse_Nil_iff: "sort_reverse f xs = [] \<longleftrightarrow> xs = []"
  using sort_reverse_length [of f xs] by (metis length_0_conv)

text \<open>
  C8, as amended. \<open>recommend_products\<close> never raises and changes nothing. When the
  category is a string that is not empty, it keeps the products whose category is that
  string up to the case of the letters, and when none is left it returns status
  \<open>error\<close> with the categories of the catalog (in an order that is not fixed). When
  the category is omitted or is the empty string it keeps the whole catalog. It then
  returns status \<open>success\<close> with the first three of the kept products in descending
  order of (rating, reviews), products of equal rating and reviews staying in catalog
  order.
\<close>

theorem recommend_products_amended:
  "let r = recommend_products cat s;
       catalog = map snd (products_db s);
       given = (case cat of None \<Rightarrow> False | Some c \<Rightarrow> c \<noteq> []);
       kept = (case cat of
                 None \<Rightarrow> catalog
               | Some c \<Rightarrow>
                   if c \<noteq> [] then filter (\<lambda>p. lower (category p) = lower c) catalog
                   else catalog);
       sorted_kept = sort_reverse (\<lambda>p. (rating p, reviews p)) kept
   in \<not> raises r \<and> state_after s r = s \<and>
      (if given \<and> kept = [] then
         returned r ''status'' = Some (JStr ''error'') \<and>
         (\<exists>cs. returned r ''available_categories'' = Some (JUnordered (map JStr cs)) \<and>
               set cs = category ` set catalog \<and> distinct cs)
       else
         returned r ''status'' = Some (JStr ''success'') \<and>
         returned r ''recommendations'' =
           Some (JList (map (\<lambda>p. JDict
                   [(''name'', JStr (name_p p)),
                    (''price'', format_price (price p)),
                    (''rating'', JFmt [FNum (rating p), Lit ''/5.0'']),
                    (''category'', JStr (category p)),
                    (''description'', JStr (description p)),
                    (''available'', JBool (stock p > 0))])
                 (take 3 sorted_kept)))) \<and>
      sorted_wrt (\<lambda>a b. (rating b, reviews b) \<le> (rating a, reviews a)) sorted_kept \<and>
      (\<forall>k. filter (\<lambda>p. (rating p, reviews p) = k) sorted_kept =
           filter (\<lambda>p. (rating p, reviews p) = k) kept) \<and>
      length sorted_kept = length kept"
proof -
  have A: "let r = recommend_products cat s;
       catalog = map snd (products_db s);
       given = (case cat of None \<Rightarrow> False | Some c \<Rightarrow> c \<noteq> []);
       kept = (case cat of
                 None \<Rightarrow> catalog
               | Some c \<Rightarrow>
                   if c \<noteq> [] then filter (\<lambda>p. lower (category p) = lower c) catalog
                   else catalog);
       sorted_kept = sort_reverse (\<lambda>p. (rating p, reviews p)) kept
   in \<not> raises r \<and> state_after s r = s \<and>
      (if given \<and> kept = [] then
         returned r ''status'' = Some (JStr ''error'') \<and>
         (\<exists>cs. returned r ''available_categories'' = Some (JUnordered (map JStr cs)) \<and>
               set cs = category ` set catalog \<and> distinct cs)
       else
         returned r ''status'' = Some (JStr ''success'') \<and>
         returned r ''recommendations'' =
           Some (JList (map (\<lambda>p. JDict
                   [(''name'', JStr (name_p p)),
                    (''price'', format_price (price p)),
                    (''rating'', JFmt [FNum (rating p), Lit ''/5.0'']),
                    (''category'', JStr (category p)),
                    (''description'', JStr (description p)),
                    (''available'', JBool (stock p > 0))])
                 (take 3 sorted_kept))))"
  proof (cases cat)
    case None
    then show ?thesis
      by (simp add: recommend_products_def Let_def raises_def state_after_def returned_def)
  next
    case (Some c)
    show ?thesis
    proof (cases "c = []")
      case True
      with Some show ?thesis
        by (simp add: recommend_products_def Let_def raises_def state_after_def returned_def)
    next
      case False
      show ?thesis
      proof (cases "filter (\<lambda>p. lower (category p) = lower c) (map snd (products_db s)) = []")
        case True
        with Some False show ?thesis
          by (force simp: recommend_products_def Let_def raises_def state_after_def returned_def
                image_image
              intro!: exI [of _ "remdups (map (category \<circ> snd) (products_db s))"])
      next
        case ne: False
        with Some False show ?thesis
          by (simp add: recommend_products_def Let_def raises_def state_after_def returned_def)
      qed
    qed
  qed
  show ?thesis
    unfolding Let_def
    by (intro conjI allI sort_reverse_descending sort_reverse_stable sort_reverse_length)
       (insert A [unfolded Let_def], blast+)
qed

text \<open>
  With the shipped catalog, \<open>"PERIPHERALS"\<close> gives the mouse (4.7) before the keyboard
  (4.6), and \<open>"toys"\<close> gives an error.
\<close>

theorem recommend_products_amended_witness:
  "returned (recommend_products (Some ''toys'') initial_state) ''status'' =
     Some (JStr ''error'') \<and>
   returned (recommend_products (Some ''PERIPHERALS'') initial_state) ''status'' =
     Some (JStr ''success'') \<and>
   map name_p (take 3 (sort_reverse (\<lambda>p. (rating p, reviews p))
      (filter (\<lambda>p. lower (category p) = lower ''PERIPHERALS'')
         (map snd (products_db initial_state))))) =
     [''Gaming Mouse Pro'', ''Mechanical RGB Keyboard''] \<and>
   map name_p (take 3 (sort_reverse (\<lambda>p. (rating p, reviews p))
      (map snd (products_db initial_state)))) =
     [''4K HDR Monitor'', ''Gaming Laptop Pro'', ''Gaming Mouse Pro'']"
proof -
  have 1: "filter (\<lambda>p. lower (category p) = lower ''toys'')
             (map snd (products_db initial_state)) = []"
    by code_simp
  have 2: "filter (\<lambda>p. lower (category p) = lower ''PERIPHERALS'')
             (map snd (products_db initial_state)) \<noteq> []"
    by code_simp
  have 3: "map name_p (take 3 (sort_reverse (\<lambda>p. (rating p, reviews p))
      (filter (\<lambda>p. lower (category p) = lower ''PERIPHERALS'')
         (map snd (products_db initial_state))))) =
     [''Gaming Mouse Pro'', ''Mechanical RGB Keyboard'']"
    by code_simp
  have 4: "map name_p (take 3 (sort_reverse (\<lambda>p. (rating p, reviews p))
      (map snd (products_db initial_state)))) =
     [''4K HDR Monitor'', ''Gaming Laptop Pro'', ''Gaming Mouse Pro'']"
    by code_simp
  have a: "returned (recommend_products (Some ''toys'') initial_state) ''status'' =
     Some (JStr ''error'')"
    using recommend_products_amended [of "Some ''toys''" initial_state] 1
    by (simp add: Let_def)
  have b: "returned (recommend_products (Some ''PERIPHERALS'') initial_state) ''status'' =
     Some (JStr ''success'')"
    using recommend_products_amended [of "Some ''PERIPHERALS''" initial_state] 2
    by (simp add: Let_def)
  show ?thesis using a b 3 4 by blast
qed

text \<open>
  The claim as it was stated fails: the empty string is a category that is supplied and
  that no product has, and the result is not an error but the top three of the whole
  catalog.
\<close>

theorem recommend_products_empty_category:
  "returned (recommend_products (Some []) initial_state) ''status'' = Some (JStr ''success'') \<and>
   returned (recommend_products (Some []) initial_state) ''category'' = Some (JStr ''All'') \<and>
   returned (recommend_products (Some []) initial_state) ''recommendations'' =
     returned (recommend_products None initial_state) ''recommendations'' \<and>
   filter (\<lambda>p. lower (category p) = lower []) (map snd (products_db initial_state)) = []"
proof -
  have 1: "filter (\<lambda>p. lower (category p) = lower []) (map snd (products_db initial_state)) = []"
    by code_simp
  show ?thesis using 1 by (simp add: recommend_products_def Let_def returned_def)
qed

end
